theory Spec2Isabelle
  imports Main "HOL-Library.Word"
begin

section \<open>The WxWork application client (wechat/wxwork_app.go)\<close>

text \<open>
  The client caches an access token, refreshes it when it is absent or expired, and attaches
  it to every request. The model below follows the source function by function. What the
  source obtains from outside (the clock, the HTTP transport, the JSON decoder, the
  multipart writer) is read from an explicit \<open>world\<close> that every function takes and
  returns; the client object \<open>r\<close> of the source is passed and returned likewise.
\<close>

subsection \<open>Constants\<close>

text \<open>Go's \<open>int\<close> and \<open>int64\<close> on a 64-bit platform: arithmetic wraps around.\<close>

type_synonym int64 = "64 word"

text \<open>
  A \<open>time.Time\<close> is an instant on one time line, counted in nanoseconds from the zero
  \<open>time.Time\<close>; a \<open>time.Duration\<close> is an \<open>int64\<close> count of nanoseconds.
\<close>

type_synonym time = int

definition WxWorkAppTokenAPI :: string where
  "WxWorkAppTokenAPI = ''https://qyapi.weixin.qq.com/cgi-bin/gettoken''"

definition WxWorkAppUploadMediaAPI :: string where
  "WxWorkAppUploadMediaAPI = ''https://qyapi.weixin.qq.com/cgi-bin/media/upload''"

definition WxWorkAppUploadImageAPI :: string where
  "WxWorkAppUploadImageAPI = ''https://qyapi.weixin.qq.com/cgi-bin/media/uploadimg''"

definition WxWorkAppMessageAPI :: string where
  "WxWorkAppMessageAPI = ''https://qyapi.weixin.qq.com/cgi-bin/message/send''"

definition WxWorkAppGroupMessageAPI :: string where
  "WxWorkAppGroupMessageAPI = ''https://qyapi.weixin.qq.com/cgi-bin/appchat/send''"

definition WxWorkAppCreateGroupAPI :: string where
  "WxWorkAppCreateGroupAPI = ''https://qyapi.weixin.qq.com/cgi-bin/appchat/create''"

definition WxWorkAppUpdateGroupAPI :: string where
  "WxWorkAppUpdateGroupAPI = ''https://qyapi.weixin.qq.com/cgi-bin/appchat/update''"

definition WxWorkAppGetGroupAPI :: string where
  "WxWorkAppGetGroupAPI = ''https://qyapi.weixin.qq.com/cgi-bin/appchat/get''"

definition WxWorkAppStatusOK :: int64 where
  "WxWorkAppStatusOK = 0"

definition WxWorkCodeAccessTokenExpired :: int64 where
  "WxWorkCodeAccessTokenExpired = 42001"

text \<open>\<open>http.StatusOK\<close>, \<open>http.MethodGet\<close>, \<open>http.MethodPost\<close> and \<open>time.Second\<close>.\<close>

definition StatusOK :: int where
  "StatusOK = 200"

definition MethodGet :: string where
  "MethodGet = ''GET''"

definition MethodPost :: string where
  "MethodPost = ''POST''"

definition Second :: int64 where
  "Second = 1000000000"

subsection \<open>Structs\<close>

record WxWorkAppGroup =
  ChatID :: string
  Name :: string
  Owner :: string
  UserList :: "string list"

text \<open>
  The eight response structs of the source share \<open>ErrCode\<close> and \<open>ErrMessage\<close> and differ
  in the members after them. One record holds the members of all of them:
  \<open>WxWorkAppTokenResp\<close> is \<open>ErrCode, ErrMessage, AccessToken, ExpiresIn\<close>;
  \<open>WxWorkAppMessageResp\<close> is \<open>ErrCode, ErrMessage, InvalidUser, InvalidParty, InvalidTag\<close>;
  \<open>WxWorkAppGroupMessageResp\<close> and \<open>WxWorkAppUpdateGroupResp\<close> are \<open>ErrCode, ErrMessage\<close>;
  \<open>WxWorkAppCreateGroupResp\<close> adds \<open>RespChatID\<close> (the member \<open>ChatID\<close> of the source);
  \<open>WxWorkAppGetGroupResp\<close> adds \<open>ChatInfo\<close>;
  \<open>WxWorkAppUploadMediaResp\<close> adds \<open>Type, MediaID, CreatedAt\<close>;
  \<open>WxWorkAppUploadImageResp\<close> adds \<open>URL\<close>.
  A function of the model reads only the members of the struct its source decodes into.
\<close>

record wxResp =
  ErrCode :: int64
  ErrMessage :: string
  AccessToken :: string
  ExpiresIn :: int64
  InvalidUser :: string
  InvalidParty :: string
  InvalidTag :: string
  RespChatID :: string
  ChatInfo :: WxWorkAppGroup
  Type :: string
  MediaID :: string
  CreatedAt :: string
  URL :: string

text \<open>The zero value of a response struct, as \<open>var resp T\<close> declares it.\<close>

definition zeroResp :: wxResp where
  "zeroResp = \<lparr>ErrCode = 0, ErrMessage = [], AccessToken = [], ExpiresIn = 0,
     InvalidUser = [], InvalidParty = [], InvalidTag = [], RespChatID = [],
     ChatInfo = \<lparr>ChatID = [], Name = [], Owner = [], UserList = []\<rparr>,
     Type = [], MediaID = [], CreatedAt = [], URL = []\<rparr>"

record WxWorkAppCreateGroupOptions =
  OptChatID :: string

record WxWorkAppUpdateGroupOptions =
  OptName :: string
  OptOwner :: string
  AddUserList :: "string list"
  DelUserList :: "string list"

text \<open>
  The client. The \<open>http.Client\<close> is the transport of the \<open>world\<close>; the
  \<open>tokenRefreshLock\<close> has no effect on a single caller and is not a field here.
\<close>

record WxWorkApp =
  agentID :: string
  corpID :: string
  corpSecret :: string
  accessToken :: string
  expiredAt :: time

subsection \<open>Errors\<close>

text \<open>
  Every error of the source is built by \<open>fmt.Errorf\<close> from a fixed prefix and the text
  of its cause. A constructor stands for the prefix and carries the cause:
  \<^item> \<open>CreateRequestError e\<close>: \<^verbatim>\<open>create request error, e\<close>
  \<^item> \<open>GetResponseError e\<close>: \<^verbatim>\<open>get response error, e\<close>
  \<^item> \<open>WxworkRequestError s\<close>: \<^verbatim>\<open>wxwork request error, s\<close> (\<open>s\<close> the status line)
  \<^item> \<open>WxworkAppRequestError s\<close>: \<^verbatim>\<open>wxwork app request error, s\<close>
  \<^item> \<open>ParseResponseError e\<close>: \<^verbatim>\<open>parse response error, e\<close>
  \<^item> \<open>CallApiError a c m\<close>: \<^verbatim>\<open>call wxwork app a api error, c m\<close> (\<open>a\<close> is empty for the
    token endpoint, whose text is \<^verbatim>\<open>call wxwork app api error, c m\<close>)
  \<^item> \<open>RefreshAccessTokenError e\<close>: \<^verbatim>\<open>refresh access token error, e\<close>
  \<^item> \<open>CreateFormFileError e\<close>, \<open>WriteFormFileError e\<close>, \<open>CloseFormFileError e\<close>:
    \<^verbatim>\<open>create form file error, e\<close> and its two siblings.
\<close>

datatype error =
    CreateRequestError string
  | GetResponseError string
  | WxworkRequestError string
  | WxworkAppRequestError string
  | ParseResponseError string
  | CallApiError string int64 string
  | RefreshAccessTokenError error
  | CreateFormFileError string
  | WriteFormFileError string
  | CloseFormFileError string

subsection \<open>Request bodies and \<open>json.Marshal\<close>\<close>

text \<open>
  A Go value handed over as \<open>reqBodyObject\<close>. \<open>JUnsupported e\<close> is a value that
  \<open>json.Marshal\<close> rejects with the error \<open>e\<close> (a channel, a function, a cyclic value).
  The bytes that \<open>json.Marshal\<close> returns are represented by the value they encode.
\<close>

datatype jvalue =
    JStr string
  | JNum int
  | JArr "jvalue list"
  | JObj "(string \<times> jvalue) list"
  | JUnsupported string

fun unsupported :: "jvalue \<Rightarrow> string list" where
  "unsupported (JUnsupported e) = [e]"
| "unsupported (JArr vs) = concat (map unsupported vs)"
| "unsupported (JObj kvs) = concat (map (\<lambda>kv. unsupported (snd kv)) kvs)"
| "unsupported (JStr s) = []"
| "unsupported (JNum n) = []"

text \<open>\<open>json.Marshal\<close>: the bytes (none on failure) and the error.\<close>

definition jsonMarshal :: "jvalue \<Rightarrow> jvalue option \<times> string option" where
  "jsonMarshal v = (case unsupported v of [] \<Rightarrow> (Some v, None) | e # _ \<Rightarrow> (None, Some e))"

subsection \<open>The world: clock, transport, decoder\<close>

datatype payload =
    NoBody
  | JSONBody "jvalue option"
  | MultipartBody string "8 word list"

text \<open>
  A request as \<open>client.Do\<close> receives it. \<open>query\<close> holds the parameters of the query
  string in the order the source adds them (\<open>url.Values.Encode\<close> sorts them by key);
  \<open>JSONBody None\<close> is a body of no bytes; \<open>MultipartBody n b\<close> is the form with the one
  file field \<open>media\<close> of file name \<open>n\<close> and content \<open>b\<close>.
\<close>

record request =
  httpMethod :: string
  url :: string
  query :: "(string \<times> string) list"
  contentType :: "string option"
  body :: payload

text \<open>
  A response: its status code and status line, and what \<open>Decode\<close> does on its body:
  the members it writes into the zero struct of the caller, and its error.
\<close>

record response =
  StatusCode :: int
  Status :: string
  decoded :: wxResp
  decodeErr :: "string option"

datatype formFileFailure =
    CreateFormFileFails string
  | WriteFormFileFails string
  | CloseFormFileFails string

text \<open>
  What the outside answers during one outbound exchange: the failure of the multipart
  writer (read by \<open>uploadFile\<close> only), the error of \<open>http.NewRequest\<close>, and the result of
  \<open>client.Do\<close>.
\<close>

record exchange =
  formFile :: "formFileFailure option"
  newRequestErr :: "string option"
  doResult :: "string + response"

text \<open>
  The world: \<open>clock w n\<close> is the \<open>n\<close>-th reading of \<open>time.Now()\<close> and \<open>ticks w\<close> the
  number of readings taken; \<open>exchanges w n\<close> is the answer to the \<open>n\<close>-th outbound
  exchange and \<open>attempts w\<close> the number of exchanges started; \<open>calls w\<close> lists the
  requests handed to \<open>client.Do\<close>, oldest first.
\<close>

record world =
  clock :: "nat \<Rightarrow> time"
  ticks :: nat
  exchanges :: "nat \<Rightarrow> exchange"
  attempts :: nat
  calls :: "request list"

definition timeNow :: "world \<Rightarrow> time \<times> world" where
  "timeNow w = (clock w (ticks w), w\<lparr>ticks := Suc (ticks w)\<rparr>)"

definition nextExchange :: "world \<Rightarrow> exchange \<times> world" where
  "nextExchange w = (exchanges w (attempts w), w\<lparr>attempts := Suc (attempts w)\<rparr>)"

definition clientDo :: "request \<Rightarrow> world \<Rightarrow> world" where
  "clientDo req w = w\<lparr>calls := calls w @ [req]\<rparr>"

subsection \<open>The cached token\<close>

text \<open>\<open>NewWxWorkApp\<close>: the token is empty and \<open>expiredAt\<close> is the zero \<open>time.Time\<close>.\<close>

definition NewWxWorkApp :: "string \<Rightarrow> string \<Rightarrow> string \<Rightarrow> WxWorkApp" where
  "NewWxWorkApp cid csecret aid =
     \<lparr>agentID = aid, corpID = cid, corpSecret = csecret, accessToken = [], expiredAt = 0\<rparr>"

text \<open>\<open>time.Now().After(r.expiredAt)\<close>.\<close>

definition IsAccessTokenExpired :: "WxWorkApp \<Rightarrow> world \<Rightarrow> bool \<times> world" where
  "IsAccessTokenExpired r w = (case timeNow w of (now, w') \<Rightarrow> (expiredAt r < now, w'))"

text \<open>
  The condition \<open>r.accessToken == "" || r.IsAccessTokenExpired()\<close> of \<open>fireRequest\<close> and
  \<open>uploadFile\<close>: the clock is read only when the token is not empty.
\<close>

definition tokenMissingOrExpired :: "WxWorkApp \<Rightarrow> world \<Rightarrow> bool \<times> world" where
  "tokenMissingOrExpired r w =
     (if accessToken r = [] then (True, w) else IsAccessTokenExpired r w)"

definition tokenRequest :: "WxWorkApp \<Rightarrow> request" where
  "tokenRequest r =
     \<lparr>httpMethod = MethodGet, url = WxWorkAppTokenAPI,
      query = [(''corpid'', corpID r), (''corpsecret'', corpSecret r)],
      contentType = None, body = NoBody\<rparr>"

definition refreshAccessToken :: "WxWorkApp \<Rightarrow> world \<Rightarrow> error option \<times> WxWorkApp \<times> world" where
  "refreshAccessToken r w =
     (case nextExchange w of (x, w1) \<Rightarrow>
      (case newRequestErr x of
         Some newErr \<Rightarrow> (Some (CreateRequestError newErr), r, w1)
       | None \<Rightarrow>
          (let w2 = clientDo (tokenRequest r) w1 in
           (case doResult x of
              Inl getErr \<Rightarrow> (Some (GetResponseError getErr), r, w2)
            | Inr resp \<Rightarrow>
               if StatusCode resp \<noteq> StatusOK
               then (Some (WxworkRequestError (Status resp)), r, w2)
               else
                 (case decodeErr resp of
                    Some decErr \<Rightarrow> (Some (ParseResponseError decErr), r, w2)
                  | None \<Rightarrow>
                     (let wxTokenResp = decoded resp in
                      if ErrCode wxTokenResp \<noteq> WxWorkAppStatusOK
                      then (Some (CallApiError [] (ErrCode wxTokenResp) (ErrMessage wxTokenResp)),
                            r, w2)
                      else
                        (case timeNow w2 of (now, w3) \<Rightarrow>
                           (None,
                            r\<lparr>accessToken := AccessToken wxTokenResp,
                              expiredAt := now + sint (Second * ExpiresIn wxTokenResp)\<rparr>,
                            w3))))))))"

text \<open>
  The first block of \<open>fireRequest\<close> and of \<open>uploadFile\<close> (the same text in both): check,
  take the lock, check again, refresh, release the lock, wrap the error.
\<close>

definition acquireToken :: "WxWorkApp \<Rightarrow> world \<Rightarrow> error option \<times> WxWorkApp \<times> world" where
  "acquireToken r w =
     (case tokenMissingOrExpired r w of
        (False, w1) \<Rightarrow> (None, r, w1)
      | (True, w1) \<Rightarrow>
         (case tokenMissingOrExpired r w1 of
            (False, w2) \<Rightarrow> (None, r, w2)
          | (True, w2) \<Rightarrow>
             (case refreshAccessToken r w2 of
                (None, r', w3) \<Rightarrow> (None, r', w3)
              | (Some err, r', w3) \<Rightarrow> (Some (RefreshAccessTokenError err), r', w3))))"

subsection \<open>The two dispatchers\<close>

text \<open>
  Both return the error and the value left in the response struct of the caller: the zero
  struct when \<open>Decode\<close> was not reached.
\<close>

definition queryOf :: "WxWorkApp \<Rightarrow> (string \<times> string) list option \<Rightarrow> (string \<times> string) list" where
  "queryOf r reqParams =
     (''access_token'', accessToken r) # (case reqParams of None \<Rightarrow> [] | Some ps \<Rightarrow> ps)"

definition fireRequest ::
  "string \<Rightarrow> string \<Rightarrow> (string \<times> string) list option \<Rightarrow> jvalue option \<Rightarrow>
   WxWorkApp \<Rightarrow> world \<Rightarrow> error option \<times> wxResp \<times> WxWorkApp \<times> world" where
  "fireRequest reqMethod reqURL reqParams reqBodyObject r w =
     (case acquireToken r w of
        (Some err, r1, w1) \<Rightarrow> (Some err, zeroResp, r1, w1)
      | (None, r1, w1) \<Rightarrow>
         (let reqBodyReader =
                (case reqBodyObject of
                   None \<Rightarrow> NoBody
                 | Some obj \<Rightarrow> JSONBody (fst (jsonMarshal obj)))
          in
          (case nextExchange w1 of (x, w2) \<Rightarrow>
           (case newRequestErr x of
              Some newErr \<Rightarrow> (Some (CreateRequestError newErr), zeroResp, r1, w2)
            | None \<Rightarrow>
               (let req = \<lparr>httpMethod = reqMethod, url = reqURL, query = queryOf r1 reqParams,
                           contentType = Some ''application/json'', body = reqBodyReader\<rparr>;
                    w3 = clientDo req w2
                in
                (case doResult x of
                   Inl getErr \<Rightarrow> (Some (GetResponseError getErr), zeroResp, r1, w3)
                 | Inr resp \<Rightarrow>
                    if StatusCode resp \<noteq> StatusOK
                    then (Some (WxworkRequestError (Status resp)), zeroResp, r1, w3)
                    else
                      (case decodeErr resp of
                         Some decErr \<Rightarrow> (Some (ParseResponseError decErr), decoded resp, r1, w3)
                       | None \<Rightarrow> (None, decoded resp, r1, w3))))))))"

definition uploadFile ::
  "string \<Rightarrow> string \<Rightarrow> (string \<times> string) list option \<Rightarrow> 8 word list \<Rightarrow> string \<Rightarrow>
   WxWorkApp \<Rightarrow> world \<Rightarrow> error option \<times> wxResp \<times> WxWorkApp \<times> world" where
  "uploadFile reqMethod reqURL reqParams fileBody fileName r w =
     (case acquireToken r w of
        (Some err, r1, w1) \<Rightarrow> (Some err, zeroResp, r1, w1)
      | (None, r1, w1) \<Rightarrow>
         (case nextExchange w1 of (x, w2) \<Rightarrow>
          (case formFile x of
             Some (CreateFormFileFails e) \<Rightarrow> (Some (CreateFormFileError e), zeroResp, r1, w2)
           | Some (WriteFormFileFails e) \<Rightarrow> (Some (WriteFormFileError e), zeroResp, r1, w2)
           | Some (CloseFormFileFails e) \<Rightarrow> (Some (CloseFormFileError e), zeroResp, r1, w2)
           | None \<Rightarrow>
              (case newRequestErr x of
                 Some newErr \<Rightarrow> (Some (CreateRequestError newErr), zeroResp, r1, w2)
               | None \<Rightarrow>
                  (let req = \<lparr>httpMethod = reqMethod, url = reqURL, query = queryOf r1 reqParams,
                              contentType = Some ''multipart/form-data'',
                              body = MultipartBody fileName fileBody\<rparr>;
                       w3 = clientDo req w2
                   in
                   (case doResult x of
                      Inl getErr \<Rightarrow> (Some (GetResponseError getErr), zeroResp, r1, w3)
                    | Inr resp \<Rightarrow>
                       if StatusCode resp \<noteq> StatusOK
                       then (Some (WxworkAppRequestError (Status resp)), zeroResp, r1, w3)
                       else
                         (case decodeErr resp of
                            Some decErr \<Rightarrow>
                              (Some (ParseResponseError decErr), decoded resp, r1, w3)
                          | None \<Rightarrow> (None, decoded resp, r1, w3))))))))"

subsection \<open>The operations built on the dispatchers\<close>

text \<open>
  Each returns the named results of its source (zero when the source leaves them unset),
  then the error, the client and the world.
\<close>

definition sendMessage ::
  "jvalue option \<Rightarrow> WxWorkApp \<Rightarrow> world \<Rightarrow> wxResp \<times> error option \<times> WxWorkApp \<times> world" where
  "sendMessage messageObj r w =
     (case fireRequest MethodPost WxWorkAppMessageAPI None messageObj r w of
        (Some err, messageResp, r1, w1) \<Rightarrow> (messageResp, Some err, r1, w1)
      | (None, messageResp, r1, w1) \<Rightarrow>
         if ErrCode messageResp \<noteq> WxWorkAppStatusOK
         then (messageResp,
               Some (CallApiError ''message'' (ErrCode messageResp) (ErrMessage messageResp)),
               (if ErrCode messageResp = WxWorkCodeAccessTokenExpired
                then r1\<lparr>accessToken := []\<rparr> else r1),
               w1)
         else (messageResp, None, r1, w1))"

text \<open>The maps that \<open>CreateGroupChat\<close> and \<open>UpdateGroupChat\<close> build as request bodies.\<close>

definition createGroupReqObject ::
  "string \<Rightarrow> string \<Rightarrow> string list \<Rightarrow> WxWorkAppCreateGroupOptions option \<Rightarrow> jvalue" where
  "createGroupReqObject name ownerID userIDList options =
     JObj ([(''name'', JStr name), (''owner'', JStr ownerID),
            (''userlist'', JArr (map JStr userIDList))] @
           (case options of
              None \<Rightarrow> []
            | Some opts \<Rightarrow> [(''chatid'', JStr (OptChatID opts))]))"

definition updateGroupReqObject ::
  "string \<Rightarrow> WxWorkAppUpdateGroupOptions option \<Rightarrow> jvalue" where
  "updateGroupReqObject chatID options =
     JObj ((''chatid'', JStr chatID) #
           (case options of
              None \<Rightarrow> []
            | Some opts \<Rightarrow>
               [(''name'', JStr (OptName opts)), (''owner'', JStr (OptOwner opts)),
                (''add_user_list'', JArr (map JStr (AddUserList opts))),
                (''del_user_list'', JArr (map JStr (DelUserList opts)))]))"

definition CreateGroupChat ::
  "string \<Rightarrow> string \<Rightarrow> string list \<Rightarrow> WxWorkAppCreateGroupOptions option \<Rightarrow>
   WxWorkApp \<Rightarrow> world \<Rightarrow> string \<times> error option \<times> WxWorkApp \<times> world" where
  "CreateGroupChat name ownerID userIDList options r w =
     (case fireRequest MethodPost WxWorkAppCreateGroupAPI None
             (Some (createGroupReqObject name ownerID userIDList options)) r w of
        (Some err, createGroupResp, r1, w1) \<Rightarrow> ([], Some err, r1, w1)
      | (None, createGroupResp, r1, w1) \<Rightarrow>
         if ErrCode createGroupResp \<noteq> WxWorkAppStatusOK
         then ([],
               Some (CallApiError ''create group'' (ErrCode createGroupResp)
                       (ErrMessage createGroupResp)),
               (if ErrCode createGroupResp = WxWorkCodeAccessTokenExpired
                then r1\<lparr>accessToken := []\<rparr> else r1),
               w1)
         else (RespChatID createGroupResp, None, r1, w1))"

definition UpdateGroupChat ::
  "string \<Rightarrow> WxWorkAppUpdateGroupOptions option \<Rightarrow>
   WxWorkApp \<Rightarrow> world \<Rightarrow> error option \<times> WxWorkApp \<times> world" where
  "UpdateGroupChat chatID options r w =
     (case fireRequest MethodPost WxWorkAppUpdateGroupAPI None
             (Some (updateGroupReqObject chatID options)) r w of
        (Some err, updateGroupResp, r1, w1) \<Rightarrow> (Some err, r1, w1)
      | (None, updateGroupResp, r1, w1) \<Rightarrow>
         if ErrCode updateGroupResp \<noteq> WxWorkAppStatusOK
         then (Some (CallApiError ''update group'' (ErrCode updateGroupResp)
                       (ErrMessage updateGroupResp)),
               (if ErrCode updateGroupResp = WxWorkCodeAccessTokenExpired
                then r1\<lparr>accessToken := []\<rparr> else r1),
               w1)
         else (None, r1, w1))"

definition zeroGroup :: WxWorkAppGroup where
  "zeroGroup = \<lparr>ChatID = [], Name = [], Owner = [], UserList = []\<rparr>"

definition GetGroupChat ::
  "string \<Rightarrow> WxWorkApp \<Rightarrow> world \<Rightarrow> WxWorkAppGroup \<times> error option \<times> WxWorkApp \<times> world" where
  "GetGroupChat chatID r w =
     (case fireRequest MethodGet WxWorkAppGetGroupAPI (Some [(''chatid'', chatID)]) None r w of
        (Some err, getGroupResp, r1, w1) \<Rightarrow> (zeroGroup, Some err, r1, w1)
      | (None, getGroupResp, r1, w1) \<Rightarrow>
         if ErrCode getGroupResp \<noteq> WxWorkAppStatusOK
         then (zeroGroup,
               Some (CallApiError ''get group'' (ErrCode getGroupResp) (ErrMessage getGroupResp)),
               (if ErrCode getGroupResp = WxWorkCodeAccessTokenExpired
                then r1\<lparr>accessToken := []\<rparr> else r1),
               w1)
         else (ChatInfo getGroupResp, None, r1, w1))"

definition sendGroupMessage ::
  "jvalue option \<Rightarrow> WxWorkApp \<Rightarrow> world \<Rightarrow> error option \<times> WxWorkApp \<times> world" where
  "sendGroupMessage messageObj r w =
     (case fireRequest MethodPost WxWorkAppGroupMessageAPI None messageObj r w of
        (Some err, messageResp, r1, w1) \<Rightarrow> (Some err, r1, w1)
      | (None, messageResp, r1, w1) \<Rightarrow>
         if ErrCode messageResp \<noteq> WxWorkAppStatusOK
         then (Some (CallApiError ''group message'' (ErrCode messageResp)
                       (ErrMessage messageResp)),
               (if ErrCode messageResp = WxWorkCodeAccessTokenExpired
                then r1\<lparr>accessToken := []\<rparr> else r1),
               w1)
         else (None, r1, w1))"

text \<open>
  \<open>strconv.ParseInt(s, 10, 64)\<close> as its documentation states it: an optional sign, then
  decimal digits only; on a syntax error the value is 0, on a range error it is the
  nearest \<open>int64\<close>; the error is returned beside the value.
\<close>

definition digitVal :: "char \<Rightarrow> nat" where
  "digitVal c = of_char c - 48"

definition isDigit :: "char \<Rightarrow> bool" where
  "isDigit c = (c \<in> set ''0123456789'')"

definition ParseInt :: "string \<Rightarrow> int64 \<times> string option" where
  "ParseInt s0 =
     (case s0 of
        [] \<Rightarrow> (0, Some ''invalid syntax'')
      | c # cs \<Rightarrow>
         (let neg = (c = CHR ''-'');
              s = (if c = CHR ''+'' \<or> c = CHR ''-'' then cs else s0)
          in
          if s = [] \<or> \<not> list_all isDigit s then (0, Some ''invalid syntax'')
          else
            (let un = foldl (\<lambda>n d. 10 * n + digitVal d) 0 s in
             if \<not> neg \<and> 9223372036854775808 \<le> un
             then (9223372036854775807, Some ''value out of range'')
             else if neg \<and> 9223372036854775808 < un
             then (- 9223372036854775808, Some ''value out of range'')
             else (word_of_int (if neg then - int un else int un), None))))"

definition UploadMedia ::
  "8 word list \<Rightarrow> string \<Rightarrow> string \<Rightarrow>
   WxWorkApp \<Rightarrow> world \<Rightarrow> string \<times> int64 \<times> error option \<times> WxWorkApp \<times> world" where
  "UploadMedia fileBody fileName fileType r w =
     (case uploadFile MethodPost WxWorkAppUploadMediaAPI (Some [(''type'', fileType)])
             fileBody fileName r w of
        (Some err, uploadMediaResp, r1, w1) \<Rightarrow> ([], 0, Some err, r1, w1)
      | (None, uploadMediaResp, r1, w1) \<Rightarrow>
         if ErrCode uploadMediaResp \<noteq> WxWorkAppStatusOK
         then ([], 0,
               Some (CallApiError ''upload media'' (ErrCode uploadMediaResp)
                       (ErrMessage uploadMediaResp)),
               (if ErrCode uploadMediaResp = WxWorkCodeAccessTokenExpired
                then r1\<lparr>accessToken := []\<rparr> else r1),
               w1)
         else (MediaID uploadMediaResp, fst (ParseInt (CreatedAt uploadMediaResp)), None, r1, w1))"

definition UploadImage ::
  "8 word list \<Rightarrow> string \<Rightarrow>
   WxWorkApp \<Rightarrow> world \<Rightarrow> string \<times> error option \<times> WxWorkApp \<times> world" where
  "UploadImage fileBody fileName r w =
     (case uploadFile MethodPost WxWorkAppUploadImageAPI None fileBody fileName r w of
        (Some err, uploadImageResp, r1, w1) \<Rightarrow> ([], Some err, r1, w1)
      | (None, uploadImageResp, r1, w1) \<Rightarrow>
         if ErrCode uploadImageResp \<noteq> WxWorkAppStatusOK
         then ([],
               Some (CallApiError ''upload image'' (ErrCode uploadImageResp)
                       (ErrMessage uploadImageResp)),
               (if ErrCode uploadImageResp = WxWorkCodeAccessTokenExpired
                then r1\<lparr>accessToken := []\<rparr> else r1),
               w1)
         else (URL uploadImageResp, None, r1, w1))"

subsection \<open>Operations as values\<close>

text \<open>
  The seven operations with their arguments, so that a statement can range over all of
  them and over sequences of them. \<open>exec\<close> runs one and keeps the error, the client and
  the world.
\<close>

datatype operation =
    OpSendMessage "jvalue option"
  | OpCreateGroupChat string string "string list" "WxWorkAppCreateGroupOptions option"
  | OpUpdateGroupChat string "WxWorkAppUpdateGroupOptions option"
  | OpGetGroupChat string
  | OpSendGroupMessage "jvalue option"
  | OpUploadMedia "8 word list" string string
  | OpUploadImage "8 word list" string

fun exec :: "operation \<Rightarrow> WxWorkApp \<Rightarrow> world \<Rightarrow> error option \<times> WxWorkApp \<times> world" where
  "exec (OpSendMessage obj) r w = snd (sendMessage obj r w)"
| "exec (OpCreateGroupChat name ownerID userIDList options) r w =
     snd (CreateGroupChat name ownerID userIDList options r w)"
| "exec (OpUpdateGroupChat chatID options) r w = UpdateGroupChat chatID options r w"
| "exec (OpGetGroupChat chatID) r w = snd (GetGroupChat chatID r w)"
| "exec (OpSendGroupMessage obj) r w = sendGroupMessage obj r w"
| "exec (OpUploadMedia fileBody fileName fileType) r w =
     snd (snd (UploadMedia fileBody fileName fileType r w))"
| "exec (OpUploadImage fileBody fileName) r w = snd (UploadImage fileBody fileName r w)"

text \<open>The name of the operation in the text of its API error.\<close>

fun apiName :: "operation \<Rightarrow> string" where
  "apiName (OpSendMessage obj) = ''message''"
| "apiName (OpCreateGroupChat name ownerID userIDList options) = ''create group''"
| "apiName (OpUpdateGroupChat chatID options) = ''update group''"
| "apiName (OpGetGroupChat chatID) = ''get group''"
| "apiName (OpSendGroupMessage obj) = ''group message''"
| "apiName (OpUploadMedia fileBody fileName fileType) = ''upload media''"
| "apiName (OpUploadImage fileBody fileName) = ''upload image''"

text \<open>Whether the operation goes through \<open>uploadFile\<close> (otherwise \<open>fireRequest\<close>).\<close>

fun isUpload :: "operation \<Rightarrow> bool" where
  "isUpload (OpUploadMedia fileBody fileName fileType) = True"
| "isUpload (OpUploadImage fileBody fileName) = True"
| "isUpload other = False"

text \<open>The requests to the token endpoint among the requests sent.\<close>

definition tokenCalls :: "request list \<Rightarrow> nat" where
  "tokenCalls reqs = length (filter (\<lambda>q. url q = WxWorkAppTokenAPI) reqs)"

subsection \<open>Sequences of operations\<close>

text \<open>
  \<open>run\<close> performs operations one after the other on the same client, whatever each
  returns. \<open>issuedWhileValid\<close> says that each operation of the sequence is issued at a
  moment when the cached token is not empty and not expired: the condition of the token
  step is false on the client and the clock as the operation finds them.
\<close>

fun run :: "operation list \<Rightarrow> WxWorkApp \<Rightarrow> world \<Rightarrow> WxWorkApp \<times> world" where
  "run [] r w = (r, w)"
| "run (op # ops) r w = (case exec op r w of (e, r', w') \<Rightarrow> run ops r' w')"

fun issuedWhileValid :: "operation list \<Rightarrow> WxWorkApp \<Rightarrow> world \<Rightarrow> bool" where
  "issuedWhileValid [] r w = True"
| "issuedWhileValid (op # ops) r w =
     (\<not> fst (tokenMissingOrExpired r w) \<and>
      (case exec op r w of (e, r', w') \<Rightarrow> issuedWhileValid ops r' w'))"

subsection \<open>The common shape of the operations\<close>

text \<open>
  The definitions of this subsection are not functions of the source. They name what the
  two dispatchers and the seven operations have in common, so that one statement can
  speak about all of them; the lemmas \<open>fireRequest_eq\<close>, \<open>uploadFile_eq\<close> and \<open>exec_eq\<close>
  below prove that the functions of the source have this shape.
\<close>

text \<open>The request a dispatcher builds once it holds the token.\<close>

definition jsonRequest ::
  "string \<Rightarrow> string \<Rightarrow> (string \<times> string) list option \<Rightarrow> jvalue option \<Rightarrow>
   WxWorkApp \<Rightarrow> request" where
  "jsonRequest m u p b r =
     \<lparr>httpMethod = m, url = u, query = queryOf r p, contentType = Some ''application/json'',
      body = (case b of None \<Rightarrow> NoBody | Some obj \<Rightarrow> JSONBody (fst (jsonMarshal obj)))\<rparr>"

definition multipartRequest ::
  "string \<Rightarrow> string \<Rightarrow> (string \<times> string) list option \<Rightarrow> 8 word list \<Rightarrow> string \<Rightarrow>
   WxWorkApp \<Rightarrow> request" where
  "multipartRequest m u p fileBody fileName r =
     \<lparr>httpMethod = m, url = u, query = queryOf r p, contentType = Some ''multipart/form-data'',
      body = MultipartBody fileName fileBody\<rparr>"

fun requestOf :: "operation \<Rightarrow> WxWorkApp \<Rightarrow> request" where
  "requestOf (OpSendMessage obj) r = jsonRequest MethodPost WxWorkAppMessageAPI None obj r"
| "requestOf (OpCreateGroupChat name ownerID userIDList options) r =
     jsonRequest MethodPost WxWorkAppCreateGroupAPI None
       (Some (createGroupReqObject name ownerID userIDList options)) r"
| "requestOf (OpUpdateGroupChat chatID options) r =
     jsonRequest MethodPost WxWorkAppUpdateGroupAPI None
       (Some (updateGroupReqObject chatID options)) r"
| "requestOf (OpGetGroupChat chatID) r =
     jsonRequest MethodGet WxWorkAppGetGroupAPI (Some [(''chatid'', chatID)]) None r"
| "requestOf (OpSendGroupMessage obj) r =
     jsonRequest MethodPost WxWorkAppGroupMessageAPI None obj r"
| "requestOf (OpUploadMedia fileBody fileName fileType) r =
     multipartRequest MethodPost WxWorkAppUploadMediaAPI (Some [(''type'', fileType)])
       fileBody fileName r"
| "requestOf (OpUploadImage fileBody fileName) r =
     multipartRequest MethodPost WxWorkAppUploadImageAPI None fileBody fileName r"

text \<open>
  The error of a dispatcher after the token step, by the first stage that fails: the
  multipart writer (uploads only), the construction of the request, the network call,
  the status, the decoding. \<open>upload\<close> tells \<open>uploadFile\<close> from \<open>fireRequest\<close>.
\<close>

definition transportError :: "bool \<Rightarrow> exchange \<Rightarrow> error option" where
  "transportError upload x =
     (case (if upload then formFile x else None) of
        Some (CreateFormFileFails e) \<Rightarrow> Some (CreateFormFileError e)
      | Some (WriteFormFileFails e) \<Rightarrow> Some (WriteFormFileError e)
      | Some (CloseFormFileFails e) \<Rightarrow> Some (CloseFormFileError e)
      | None \<Rightarrow>
         (case newRequestErr x of
            Some e \<Rightarrow> Some (CreateRequestError e)
          | None \<Rightarrow>
             (case doResult x of
                Inl e \<Rightarrow> Some (GetResponseError e)
              | Inr resp \<Rightarrow>
                 if StatusCode resp \<noteq> 200
                 then Some (if upload then WxworkAppRequestError (Status resp)
                            else WxworkRequestError (Status resp))
                 else
                   (case decodeErr resp of
                      Some e \<Rightarrow> Some (ParseResponseError e)
                    | None \<Rightarrow> None))))"

text \<open>Whether the request reaches \<open>client.Do\<close>, and the struct the dispatcher leaves.\<close>

definition requestBuilt :: "bool \<Rightarrow> exchange \<Rightarrow> bool" where
  "requestBuilt upload x =
     ((if upload then formFile x = None else True) \<and> newRequestErr x = None)"

definition answer :: "bool \<Rightarrow> exchange \<Rightarrow> wxResp" where
  "answer upload x =
     (if requestBuilt upload x
      then (case doResult x of
              Inl e \<Rightarrow> zeroResp
            | Inr resp \<Rightarrow> if StatusCode resp = 200 then decoded resp else zeroResp)
      else zeroResp)"

definition deliver :: "bool \<Rightarrow> request \<Rightarrow> world \<Rightarrow> error option \<times> wxResp \<times> world" where
  "deliver upload req w =
     (let x = exchanges w (attempts w); w' = w\<lparr>attempts := Suc (attempts w)\<rparr>
      in (transportError upload x, answer upload x,
          if requestBuilt upload x then clientDo req w' else w'))"

text \<open>An operation after the token step: the exchange, then the check of the envelope.\<close>

definition finish :: "operation \<Rightarrow> WxWorkApp \<Rightarrow> world \<Rightarrow> error option \<times> WxWorkApp \<times> world" where
  "finish op r1 w1 =
     (case deliver (isUpload op) (requestOf op r1) w1 of
        (Some err, resp, w3) \<Rightarrow> (Some err, r1, w3)
      | (None, resp, w3) \<Rightarrow>
         if ErrCode resp \<noteq> WxWorkAppStatusOK
         then (Some (CallApiError (apiName op) (ErrCode resp) (ErrMessage resp)),
               (if ErrCode resp = WxWorkCodeAccessTokenExpired
                then r1\<lparr>accessToken := []\<rparr> else r1),
               w3)
         else (None, r1, w3))"

text \<open>
  The error of one exchange by the taxonomy of the specification: the first failing
  stage among request construction, network call, status and parsing (the transport and
  parse errors above), then the rejection by the remote API, an envelope whose code is
  not zero. \<open>api\<close> is the name of the operation in the text of the API error.
\<close>

definition stageError :: "string \<Rightarrow> bool \<Rightarrow> exchange \<Rightarrow> error option" where
  "stageError api upload x =
     (case transportError upload x of
        Some e \<Rightarrow> Some e
      | None \<Rightarrow>
         (case doResult x of
            Inl e \<Rightarrow> None
          | Inr resp \<Rightarrow>
             if ErrCode (decoded resp) \<noteq> 0
             then Some (CallApiError api (ErrCode (decoded resp)) (ErrMessage (decoded resp)))
             else None))"

text \<open>How the token step passes on the result of \<open>refreshAccessToken\<close>: the error wrapped.\<close>

definition wrapRefresh ::
  "error option \<times> WxWorkApp \<times> world \<Rightarrow> error option \<times> WxWorkApp \<times> world" where
  "wrapRefresh t =
     (case t of
        (None, r', w3) \<Rightarrow> (None, r', w3)
      | (Some err, r', w3) \<Rightarrow> (Some (RefreshAccessTokenError err), r', w3))"

subsection \<open>Concrete clients and worlds\<close>

text \<open>
  A client as \<open>NewWxWorkApp\<close> builds it, a client that holds a token, and worlds given
  by their clock and their answers; used to run the functions on concrete inputs.
\<close>

definition demoApp :: WxWorkApp where
  "demoApp = NewWxWorkApp ''corp'' ''secret'' ''agent''"

definition holding :: "string \<Rightarrow> time \<Rightarrow> WxWorkApp" where
  "holding T e = demoApp\<lparr>accessToken := T, expiredAt := e\<rparr>"

definition answers :: "int \<Rightarrow> string \<Rightarrow> wxResp \<Rightarrow> exchange" where
  "answers code line doc =
     \<lparr>formFile = None, newRequestErr = None,
      doResult = Inr \<lparr>StatusCode = code, Status = line, decoded = doc, decodeErr = None\<rparr>\<rparr>"

definition worldOf :: "(nat \<Rightarrow> time) \<Rightarrow> (nat \<Rightarrow> exchange) \<Rightarrow> world" where
  "worldOf c x = \<lparr>clock = c, ticks = 0, exchanges = x, attempts = 0, calls = []\<rparr>"

definition tokenDoc :: "string \<Rightarrow> int64 \<Rightarrow> wxResp" where
  "tokenDoc T N = zeroResp\<lparr>AccessToken := T, ExpiresIn := N\<rparr>"

definition errDoc :: "int64 \<Rightarrow> string \<Rightarrow> wxResp" where
  "errDoc c m = zeroResp\<lparr>ErrCode := c, ErrMessage := m\<rparr>"

text \<open>The clock stands at 100, the expiry of the token held; every answer is an empty success.\<close>

definition atExpiry :: world where
  "atExpiry = worldOf (\<lambda>n. 100) (\<lambda>n. answers 200 ''200 OK'' zeroResp)"

text \<open>The token endpoint rejects the credentials; the clock advances by one at each reading.\<close>

definition rejecting :: world where
  "rejecting = worldOf (\<lambda>n. 1000 + int n) (\<lambda>n. answers 200 ''200 OK'' (errDoc 40013 ''invalid corpid''))"

text \<open>The token endpoint grants \<open>T\<close> for 9223372037 seconds, more than an \<open>int64\<close> of nanoseconds holds.\<close>

definition hugeLifetime :: world where
  "hugeLifetime = worldOf (\<lambda>n. 1000) (\<lambda>n. answers 200 ''200 OK'' (tokenDoc ''T'' 9223372037))"

text \<open>The token endpoint grants \<open>T\<close> for 7200 seconds.\<close>

definition twoHours :: world where
  "twoHours = worldOf (\<lambda>n. 1000 + int n) (\<lambda>n. answers 200 ''200 OK'' (tokenDoc ''T'' 7200))"

text \<open>Every answer is 201 with an envelope that carries the token-expired code.\<close>

definition created :: world where
  "created = worldOf (\<lambda>n. 50) (\<lambda>n. answers 201 ''201 Created'' (errDoc 42001 ''access_token expired''))"

text \<open>Every answer is 503.\<close>

definition unavailable :: world where
  "unavailable = worldOf (\<lambda>n. 50) (\<lambda>n. answers 503 ''503 Service Unavailable'' zeroResp)"

text \<open>Every answer is 200 with an envelope that carries the token-expired code.\<close>

definition expiredReply :: world where
  "expiredReply = worldOf (\<lambda>n. 50) (\<lambda>n. answers 200 ''200 OK'' (errDoc 42001 ''access_token expired''))"

text \<open>
  The scenario of the specification: the first answer grants the token \<open>abc\<close> for 10
  seconds, every later answer is an empty success; the clock advances by a nanosecond at
  each reading.
\<close>

definition tenSeconds :: world where
  "tenSeconds =
     worldOf (\<lambda>n. 1000 + int n)
       (\<lambda>n. if n = 0 then answers 200 ''200 OK'' (tokenDoc ''abc'' 10)
            else answers 200 ''200 OK'' zeroResp)"

text \<open>Every answer is a successful media upload whose \<open>created_at\<close> is not a number.\<close>

definition badCreatedAt :: world where
  "badCreatedAt =
     worldOf (\<lambda>n. 50)
       (\<lambda>n. answers 200 ''200 OK'' (zeroResp\<lparr>MediaID := ''m1'', CreatedAt := ''abc''\<rparr>))"

section \<open>Properties\<close>

subsection \<open>The operations have the common shape\<close>

lemma fireRequest_eq:
  "fireRequest m u p b r w =
     (case acquireToken r w of
        (Some e, r1, w1) \<Rightarrow> (Some e, zeroResp, r1, w1)
      | (None, r1, w1) \<Rightarrow>
         (case deliver False (jsonRequest m u p b r1) w1 of (e, resp, w3) \<Rightarrow> (e, resp, r1, w3)))"
  by (simp add: fireRequest_def deliver_def transportError_def answer_def requestBuilt_def
        jsonRequest_def nextExchange_def StatusOK_def Let_def
        split: prod.splits option.splits sum.splits)

lemma uploadFile_eq:
  "uploadFile m u p fb fn r w =
     (case acquireToken r w of
        (Some e, r1, w1) \<Rightarrow> (Some e, zeroResp, r1, w1)
      | (None, r1, w1) \<Rightarrow>
         (case deliver True (multipartRequest m u p fb fn r1) w1 of
            (e, resp, w3) \<Rightarrow> (e, resp, r1, w3)))"
  by (simp add: uploadFile_def deliver_def transportError_def answer_def requestBuilt_def
        multipartRequest_def nextExchange_def StatusOK_def Let_def
        split: prod.splits option.splits sum.splits formFileFailure.splits)

lemmas op_defs = sendMessage_def CreateGroupChat_def UpdateGroupChat_def GetGroupChat_def
  sendGroupMessage_def UploadMedia_def UploadImage_def

lemma exec_eq:
  "exec op r w =
     (case acquireToken r w of
        (Some e, r1, w1) \<Rightarrow> (Some e, r1, w1)
      | (None, r1, w1) \<Rightarrow> finish op r1 w1)"
proof -
  obtain ea r1 w1 where A: "acquireToken r w = (ea, r1, w1)"
    by (metis prod_cases3)
  obtain e resp w3 where D: "deliver (isUpload op) (requestOf op r1) w1 = (e, resp, w3)"
    by (metis prod_cases3)
  show ?thesis
    using A D
    by (cases op; cases ea; cases e)
       (simp_all add: op_defs fireRequest_eq uploadFile_eq finish_def)
qed

lemmas demo_defs = demoApp_def holding_def answers_def worldOf_def tokenDoc_def errDoc_def
  NewWxWorkApp_def

lemmas url_defs = WxWorkAppTokenAPI_def WxWorkAppUploadMediaAPI_def WxWorkAppUploadImageAPI_def
  WxWorkAppMessageAPI_def WxWorkAppGroupMessageAPI_def WxWorkAppCreateGroupAPI_def
  WxWorkAppUpdateGroupAPI_def WxWorkAppGetGroupAPI_def

subsection \<open>The token step\<close>

lemma acquire_valid:
  "accessToken r \<noteq> [] \<Longrightarrow> clock w (ticks w) \<le> expiredAt r \<Longrightarrow>
   acquireToken r w = (None, r, w\<lparr>ticks := Suc (ticks w)\<rparr>)"
  by (simp add: acquireToken_def tokenMissingOrExpired_def IsAccessTokenExpired_def timeNow_def)

lemma requestOf_url: "url (requestOf op r1) \<noteq> WxWorkAppTokenAPI"
  by (cases op) (simp_all add: jsonRequest_def multipartRequest_def url_defs)

lemma finish_tokenCalls:
  "tokenCalls (calls (snd (snd (finish op r1 w1)))) = tokenCalls (calls w1)"
  using requestOf_url [of op r1]
  by (simp add: finish_def deliver_def clientDo_def tokenCalls_def Let_def
        split: option.splits)

subsection \<open>C1: when the cached token is usable\<close>

text \<open>
  C1 (as the code has it). The token is usable, that is the condition
  \<open>r.accessToken == "" || r.IsAccessTokenExpired()\<close> is false, if and only if the token is
  not empty and the current time is not after the recorded expiry (\<open>time.Now().After\<close> is
  a strict comparison). At exactly the expiry instant a token that is not empty is
  still usable: the token step returns at once with the client unchanged, and an
  operation issued at that instant sends no request to the token endpoint.
\<close>

theorem usable_until_expiry_inclusive:
  "(\<not> fst (tokenMissingOrExpired r w) \<longleftrightarrow>
      accessToken r \<noteq> [] \<and> clock w (ticks w) \<le> expiredAt r) \<and>
   (accessToken r \<noteq> [] \<and> clock w (ticks w) = expiredAt r \<longrightarrow>
      acquireToken r w = (None, r, w\<lparr>ticks := Suc (ticks w)\<rparr>) \<and>
      tokenCalls (calls (snd (snd (exec op r w)))) = tokenCalls (calls w))"
proof -
  have a: "\<not> fst (tokenMissingOrExpired r w) \<longleftrightarrow>
      accessToken r \<noteq> [] \<and> clock w (ticks w) \<le> expiredAt r"
    by (auto simp add: tokenMissingOrExpired_def IsAccessTokenExpired_def timeNow_def)
  have b: "acquireToken r w = (None, r, w\<lparr>ticks := Suc (ticks w)\<rparr>) \<and>
      tokenCalls (calls (snd (snd (exec op r w)))) = tokenCalls (calls w)"
    if h: "accessToken r \<noteq> []" "clock w (ticks w) = expiredAt r"
  proof -
    have v: "acquireToken r w = (None, r, w\<lparr>ticks := Suc (ticks w)\<rparr>)"
      using h by (simp add: acquire_valid)
    then show ?thesis
      by (simp add: exec_eq finish_tokenCalls)
  qed
  show ?thesis using a b by blast
qed

theorem usable_until_expiry_inclusive_witness:
  "\<not> fst (tokenMissingOrExpired (holding ''T'' 100) atExpiry) \<and>
   acquireToken (holding ''T'' 100) atExpiry =
     (None, holding ''T'' 100, atExpiry\<lparr>ticks := 1\<rparr>) \<and>
   tokenCalls (calls (snd (snd (exec (OpGetGroupChat ''g'') (holding ''T'' 100) atExpiry)))) = 0"
  using usable_until_expiry_inclusive [of "holding ''T'' 100" atExpiry "OpGetGroupChat ''g''"]
  by (simp add: demo_defs atExpiry_def tokenCalls_def)

text \<open>
  C1 as stated fails at the expiry instant: a client holds the token \<open>T\<close> with expiry 100
  and the clock reads 100. The token is usable although the time is not strictly before
  the expiry, and \<open>sendMessage\<close> sends its one request, to the message endpoint, with
  the cached token; no request goes to the token endpoint.
\<close>

theorem expiry_instant_counterexample:
  "\<not> (\<not> fst (tokenMissingOrExpired (holding ''T'' 100) atExpiry) \<longleftrightarrow>
        accessToken (holding ''T'' 100) \<noteq> [] \<and>
        clock atExpiry (ticks atExpiry) < expiredAt (holding ''T'' 100)) \<and>
   clock atExpiry (ticks atExpiry) = expiredAt (holding ''T'' 100) \<and>
   calls (snd (snd (snd (sendMessage None (holding ''T'' 100) atExpiry)))) =
     [\<lparr>httpMethod = ''POST'', url = ''https://qyapi.weixin.qq.com/cgi-bin/message/send'',
       query = [(''access_token'', ''T'')], contentType = Some ''application/json'',
       body = NoBody\<rparr>]"
  by (simp add: demo_defs atExpiry_def tokenMissingOrExpired_def IsAccessTokenExpired_def
        timeNow_def sendMessage_def fireRequest_def acquireToken_def nextExchange_def
        clientDo_def queryOf_def StatusOK_def MethodPost_def WxWorkAppMessageAPI_def
        WxWorkAppStatusOK_def zeroResp_def)

subsection \<open>The refresh\<close>

lemma acquire_refreshes:
  "fst (tokenMissingOrExpired r w) \<Longrightarrow> clock w (ticks w) \<le> clock w (Suc (ticks w)) \<Longrightarrow>
   acquireToken r w =
     wrapRefresh (refreshAccessToken r
       (if accessToken r = [] then w else w\<lparr>ticks := Suc (Suc (ticks w))\<rparr>))"
  by (auto simp add: acquireToken_def tokenMissingOrExpired_def IsAccessTokenExpired_def
        timeNow_def wrapRefresh_def split: prod.splits option.splits)

lemma refresh_reply:
  assumes "newRequestErr (exchanges w (attempts w)) = None"
    and "doResult (exchanges w (attempts w)) = Inr resp"
    and "StatusCode resp = 200"
    and "decodeErr resp = None"
  shows "refreshAccessToken r w =
     (if ErrCode (decoded resp) \<noteq> 0
      then (Some (CallApiError [] (ErrCode (decoded resp)) (ErrMessage (decoded resp))), r,
            clientDo (tokenRequest r) (w\<lparr>attempts := Suc (attempts w)\<rparr>))
      else (None,
            r\<lparr>accessToken := AccessToken (decoded resp),
              expiredAt := clock w (ticks w) + sint (Second * ExpiresIn (decoded resp))\<rparr>,
            clientDo (tokenRequest r) (w\<lparr>attempts := Suc (attempts w), ticks := Suc (ticks w)\<rparr>)))"
  using assms
  by (simp add: refreshAccessToken_def nextExchange_def StatusOK_def WxWorkAppStatusOK_def
        Let_def timeNow_def clientDo_def)

lemma seconds_in_range:
  assumes "- 9223372036 \<le> sint N" and "sint N \<le> 9223372036"
  shows "sint (Second * (N :: 64 word)) = 1000000000 * sint N"
proof -
  have "sint (Second * N) = signed_take_bit 63 (sint Second * sint N)"
    by (simp add: sint_word_ariths)
  also have "sint Second = 1000000000"
    by (simp add: Second_def)
  also have "signed_take_bit 63 (1000000000 * sint N) = 1000000000 * sint N"
    using assms by (simp add: signed_take_bit_int_eq_self)
  finally show ?thesis .
qed

text \<open>
  C5. When the token endpoint answers 200 with an envelope whose error code is not zero,
  \<open>refreshAccessToken\<close> returns the API error and the client it returns is the client
  it was given: token and expiry are as before. An operation that needed the refresh
  returns that error wrapped as a refresh error, with the client unchanged. Nothing of
  the failure is kept: a later token step that finds the token missing or expired (the
  clock not running backwards between its two checks) calls \<open>refreshAccessToken\<close> again.
\<close>

theorem refresh_rejected_keeps_cache:
  assumes "newRequestErr (exchanges w (attempts w)) = None"
    and "doResult (exchanges w (attempts w)) = Inr resp"
    and "StatusCode resp = 200"
    and "decodeErr resp = None"
    and "ErrCode (decoded resp) \<noteq> 0"
  shows "fst (refreshAccessToken r w) =
           Some (CallApiError [] (ErrCode (decoded resp)) (ErrMessage (decoded resp))) \<and>
         fst (snd (refreshAccessToken r w)) = r \<and>
         (accessToken r = [] \<longrightarrow>
            exec op r w =
              (Some (RefreshAccessTokenError
                 (CallApiError [] (ErrCode (decoded resp)) (ErrMessage (decoded resp)))),
               r, clientDo (tokenRequest r) (w\<lparr>attempts := Suc (attempts w)\<rparr>))) \<and>
         (\<forall>w'. fst (tokenMissingOrExpired r w') \<and> clock w' (ticks w') \<le> clock w' (Suc (ticks w')) \<longrightarrow>
            acquireToken (fst (snd (refreshAccessToken r w))) w' =
              wrapRefresh (refreshAccessToken r
                (if accessToken r = [] then w' else w'\<lparr>ticks := Suc (Suc (ticks w'))\<rparr>)))"
proof -
  have R: "refreshAccessToken r w =
      (Some (CallApiError [] (ErrCode (decoded resp)) (ErrMessage (decoded resp))), r,
       clientDo (tokenRequest r) (w\<lparr>attempts := Suc (attempts w)\<rparr>))"
    using assms by (simp add: refresh_reply)
  have E: "exec op r w =
      (Some (RefreshAccessTokenError
         (CallApiError [] (ErrCode (decoded resp)) (ErrMessage (decoded resp)))),
       r, clientDo (tokenRequest r) (w\<lparr>attempts := Suc (attempts w)\<rparr>))"
    if "accessToken r = []"
  proof -
    have "fst (tokenMissingOrExpired r w)"
      using that by (simp add: tokenMissingOrExpired_def)
    then have "acquireToken r w = wrapRefresh (refreshAccessToken r w)"
      using that by (simp add: acquireToken_def tokenMissingOrExpired_def wrapRefresh_def
            split: prod.splits option.splits)
    then show ?thesis
      by (simp add: exec_eq R wrapRefresh_def)
  qed
  show ?thesis
    using E by (simp add: R acquire_refreshes)
qed

theorem refresh_rejected_keeps_cache_witness:
  "fst (refreshAccessToken demoApp rejecting) = Some (CallApiError [] 40013 ''invalid corpid'') \<and>
   fst (snd (refreshAccessToken demoApp rejecting)) = demoApp \<and>
   fst (exec (OpSendMessage None) demoApp rejecting) =
     Some (RefreshAccessTokenError (CallApiError [] 40013 ''invalid corpid'')) \<and>
   fst (acquireToken (fst (snd (refreshAccessToken demoApp rejecting))) (rejecting\<lparr>attempts := 1\<rparr>)) =
     Some (RefreshAccessTokenError (CallApiError [] 40013 ''invalid corpid''))"
  using refresh_rejected_keeps_cache [of rejecting
      "\<lparr>StatusCode = 200, Status = ''200 OK'', decoded = errDoc 40013 ''invalid corpid'',
        decodeErr = None\<rparr>" demoApp "OpSendMessage None"]
  by (simp add: demo_defs rejecting_def zeroResp_def wrapRefresh_def tokenMissingOrExpired_def
        refreshAccessToken_def nextExchange_def StatusOK_def WxWorkAppStatusOK_def Let_def)

text \<open>
  C6 (as the code has it). On a successful token response with token \<open>T\<close> and lifetime
  \<open>N\<close> seconds, where \<open>N\<close> seconds fit an \<open>int64\<close> of nanoseconds
  (\<open>-9223372036 \<le> N \<le> 9223372036\<close>), the refresh stores \<open>T\<close> and sets the expiry to
  the time read at the refresh plus \<open>N\<close> seconds; afterwards the token is usable at a
  reading of the clock exactly when \<open>T\<close> is not empty and the reading is not after that
  expiry.
\<close>

theorem refresh_stores_token_and_expiry:
  assumes "newRequestErr (exchanges w (attempts w)) = None"
    and "doResult (exchanges w (attempts w)) = Inr resp"
    and "StatusCode resp = 200"
    and "decodeErr resp = None"
    and "ErrCode (decoded resp) = 0"
    and "- 9223372036 \<le> sint (ExpiresIn (decoded resp))"
    and "sint (ExpiresIn (decoded resp)) \<le> 9223372036"
  shows "fst (refreshAccessToken r w) = None \<and>
         accessToken (fst (snd (refreshAccessToken r w))) = AccessToken (decoded resp) \<and>
         expiredAt (fst (snd (refreshAccessToken r w))) =
           clock w (ticks w) + 1000000000 * sint (ExpiresIn (decoded resp)) \<and>
         (\<forall>w'. \<not> fst (tokenMissingOrExpired (fst (snd (refreshAccessToken r w))) w') \<longleftrightarrow>
            AccessToken (decoded resp) \<noteq> [] \<and>
            clock w' (ticks w') \<le> clock w (ticks w) + 1000000000 * sint (ExpiresIn (decoded resp)))"
proof -
  have R: "refreshAccessToken r w =
      (None,
       r\<lparr>accessToken := AccessToken (decoded resp),
         expiredAt := clock w (ticks w) + 1000000000 * sint (ExpiresIn (decoded resp))\<rparr>,
       clientDo (tokenRequest r) (w\<lparr>attempts := Suc (attempts w), ticks := Suc (ticks w)\<rparr>))"
    using assms by (simp add: refresh_reply seconds_in_range)
  show ?thesis
    by (auto simp add: R tokenMissingOrExpired_def IsAccessTokenExpired_def timeNow_def)
qed

theorem refresh_stores_token_and_expiry_witness:
  "ErrCode (tokenDoc ''T'' 7200) = 0 \<and> sint (ExpiresIn (tokenDoc ''T'' 7200)) = 7200 \<and>
   fst (refreshAccessToken demoApp twoHours) = None \<and>
   accessToken (fst (snd (refreshAccessToken demoApp twoHours))) = ''T'' \<and>
   expiredAt (fst (snd (refreshAccessToken demoApp twoHours))) = 1000 + 7200000000000 \<and>
   \<not> fst (tokenMissingOrExpired (fst (snd (refreshAccessToken demoApp twoHours)))
           (worldOf (\<lambda>n. 7200000001000) (exchanges twoHours))) \<and>
   fst (tokenMissingOrExpired (fst (snd (refreshAccessToken demoApp twoHours)))
           (worldOf (\<lambda>n. 7200000001001) (exchanges twoHours)))"
proof -
  let ?resp = "\<lparr>StatusCode = 200, Status = ''200 OK'', decoded = tokenDoc ''T'' 7200,
                decodeErr = None\<rparr>"
  let ?r' = "fst (snd (refreshAccessToken demoApp twoHours))"
  have T: "fst (refreshAccessToken demoApp twoHours) = None \<and>
         accessToken ?r' = AccessToken (decoded ?resp) \<and>
         expiredAt ?r' =
           clock twoHours (ticks twoHours) + 1000000000 * sint (ExpiresIn (decoded ?resp)) \<and>
         (\<forall>w'. \<not> fst (tokenMissingOrExpired ?r' w') \<longleftrightarrow>
            AccessToken (decoded ?resp) \<noteq> [] \<and>
            clock w' (ticks w') \<le>
              clock twoHours (ticks twoHours) + 1000000000 * sint (ExpiresIn (decoded ?resp)))"
    by (rule refresh_stores_token_and_expiry [of twoHours ?resp demoApp])
       (simp_all add: demo_defs twoHours_def zeroResp_def)
  then have U: "\<not> fst (tokenMissingOrExpired ?r' w') \<longleftrightarrow>
            AccessToken (decoded ?resp) \<noteq> [] \<and>
            clock w' (ticks w') \<le>
              clock twoHours (ticks twoHours) + 1000000000 * sint (ExpiresIn (decoded ?resp))"
    for w'
    by blast
  from T have V: "fst (refreshAccessToken demoApp twoHours) = None \<and>
         accessToken ?r' = AccessToken (decoded ?resp) \<and>
         expiredAt ?r' =
           clock twoHours (ticks twoHours) + 1000000000 * sint (ExpiresIn (decoded ?resp))"
    by blast
  show ?thesis
    using V U [of "worldOf (\<lambda>n. 7200000001000) (exchanges twoHours)"]
      U [of "worldOf (\<lambda>n. 7200000001001) (exchanges twoHours)"]
    by (simp add: demo_defs twoHours_def zeroResp_def)
qed

text \<open>
  C6 as stated fails when the lifetime overflows: for \<open>expires_in = 9223372037\<close> the
  product \<open>time.Second * time.Duration(ExpiresIn)\<close> wraps around to a negative duration.
  The refresh succeeds and stores \<open>T\<close>, but the expiry lies before the refresh time, is
  not the refresh time plus 9223372037 seconds, and the token counts as expired at once.
\<close>

theorem lifetime_overflow_counterexample:
  "fst (refreshAccessToken demoApp hugeLifetime) = None \<and>
   accessToken (fst (snd (refreshAccessToken demoApp hugeLifetime))) = ''T'' \<and>
   expiredAt (fst (snd (refreshAccessToken demoApp hugeLifetime))) = 1000 - 9223372036709551616 \<and>
   expiredAt (fst (snd (refreshAccessToken demoApp hugeLifetime))) \<noteq>
     1000 + 9223372037 * 1000000000 \<and>
   fst (tokenMissingOrExpired (fst (snd (refreshAccessToken demoApp hugeLifetime)))
          (snd (snd (refreshAccessToken demoApp hugeLifetime))))"
  by (simp add: demo_defs hugeLifetime_def zeroResp_def refreshAccessToken_def nextExchange_def
        StatusOK_def WxWorkAppStatusOK_def Let_def timeNow_def clientDo_def Second_def
        tokenMissingOrExpired_def IsAccessTokenExpired_def)

subsection \<open>The exchange after the token step\<close>

lemma deliver_reply:
  assumes "requestBuilt upload (exchanges w (attempts w))"
    and "doResult (exchanges w (attempts w)) = Inr resp"
  shows "deliver upload req w =
     ((if StatusCode resp \<noteq> 200
       then Some (if upload then WxworkAppRequestError (Status resp)
                  else WxworkRequestError (Status resp))
       else map_option ParseResponseError (decodeErr resp)),
      (if StatusCode resp = 200 then decoded resp else zeroResp),
      clientDo req (w\<lparr>attempts := Suc (attempts w)\<rparr>))"
  using assms
  by (auto simp add: deliver_def transportError_def answer_def requestBuilt_def Let_def
        split: option.splits if_splits)

lemma finish_reply:
  assumes "requestBuilt (isUpload op) (exchanges w1 (attempts w1))"
    and "doResult (exchanges w1 (attempts w1)) = Inr resp"
  shows "finish op r1 w1 =
     (if StatusCode resp \<noteq> 200
      then Some (if isUpload op then WxworkAppRequestError (Status resp)
                 else WxworkRequestError (Status resp))
      else (case decodeErr resp of
              Some e \<Rightarrow> Some (ParseResponseError e)
            | None \<Rightarrow>
               if ErrCode (decoded resp) \<noteq> 0
               then Some (CallApiError (apiName op) (ErrCode (decoded resp))
                            (ErrMessage (decoded resp)))
               else None),
      (if StatusCode resp = 200 \<and> decodeErr resp = None \<and>
          ErrCode (decoded resp) = WxWorkCodeAccessTokenExpired
       then r1\<lparr>accessToken := []\<rparr> else r1),
      clientDo (requestOf op r1) (w1\<lparr>attempts := Suc (attempts w1)\<rparr>))"
  using assms
  by (auto simp add: finish_def deliver_reply WxWorkAppStatusOK_def
        WxWorkCodeAccessTokenExpired_def split: option.splits)
lemma refresh_status:
  assumes "newRequestErr (exchanges w (attempts w)) = None"
    and "doResult (exchanges w (attempts w)) = Inr resp"
    and "StatusCode resp \<noteq> 200"
  shows "refreshAccessToken r w =
     (Some (WxworkRequestError (Status resp)), r,
      clientDo (tokenRequest r) (w\<lparr>attempts := Suc (attempts w)\<rparr>))"
  using assms
  by (simp add: refreshAccessToken_def nextExchange_def StatusOK_def Let_def)

lemma acquire_empty:
  "accessToken r = [] \<Longrightarrow> acquireToken r w = wrapRefresh (refreshAccessToken r w)"
  by (simp add: acquireToken_def tokenMissingOrExpired_def wrapRefresh_def
        split: prod.splits option.splits)

text \<open>
  C4 (as the code has it). Once the token step has succeeded, the request is built and
  \<open>client.Do\<close> returns a response, both dispatchers (\<open>fireRequest\<close> for JSON,
  \<open>uploadFile\<close> for multipart) compare the status code with 200: any other status is
  reported as a request error that carries the status line, and the response struct is
  left at its zero value, whatever the body holds; on status 200 the body is decoded
  into the struct of the caller, and a decode failure is reported as a parse error.
\<close>

theorem status_200_decides_decoding:
  assumes "acquireToken r w = (None, r1, w1)"
    and "formFile (exchanges w1 (attempts w1)) = None"
    and "newRequestErr (exchanges w1 (attempts w1)) = None"
    and "doResult (exchanges w1 (attempts w1)) = Inr resp"
  shows "(StatusCode resp \<noteq> 200 \<longrightarrow>
            fst (fireRequest m u p b r w) = Some (WxworkRequestError (Status resp)) \<and>
            fst (snd (fireRequest m u p b r w)) = zeroResp \<and>
            fst (uploadFile m' u' p' fb fn r w) = Some (WxworkAppRequestError (Status resp)) \<and>
            fst (snd (uploadFile m' u' p' fb fn r w)) = zeroResp) \<and>
         (StatusCode resp = 200 \<longrightarrow>
            fst (fireRequest m u p b r w) = map_option ParseResponseError (decodeErr resp) \<and>
            fst (snd (fireRequest m u p b r w)) = decoded resp \<and>
            fst (uploadFile m' u' p' fb fn r w) = map_option ParseResponseError (decodeErr resp) \<and>
            fst (snd (uploadFile m' u' p' fb fn r w)) = decoded resp)"
proof -
  have b: "requestBuilt False (exchanges w1 (attempts w1))"
    "requestBuilt True (exchanges w1 (attempts w1))"
    using assms by (simp_all add: requestBuilt_def)
  show ?thesis
    using assms(1,4) b
    by (simp add: fireRequest_eq uploadFile_eq deliver_reply)
qed

theorem status_200_decides_decoding_witness:
  "fst (fireRequest MethodGet WxWorkAppGetGroupAPI None None (holding ''T'' 100) unavailable) =
     Some (WxworkRequestError ''503 Service Unavailable'') \<and>
   fst (uploadFile MethodPost WxWorkAppUploadImageAPI None [1, 2] ''a.png'' (holding ''T'' 100)
          unavailable) = Some (WxworkAppRequestError ''503 Service Unavailable'') \<and>
   fst (fireRequest MethodGet WxWorkAppGetGroupAPI None None (holding ''T'' 100) atExpiry) = None \<and>
   fst (snd (fireRequest MethodGet WxWorkAppGetGroupAPI None None (holding ''T'' 100) atExpiry)) =
     zeroResp"
proof -
  have a: "acquireToken (holding ''T'' 100) unavailable =
      (None, holding ''T'' 100, unavailable\<lparr>ticks := Suc (ticks unavailable)\<rparr>)"
    by (rule acquire_valid) (simp_all add: demo_defs unavailable_def)
  have b: "acquireToken (holding ''T'' 100) atExpiry =
      (None, holding ''T'' 100, atExpiry\<lparr>ticks := Suc (ticks atExpiry)\<rparr>)"
    by (rule acquire_valid) (simp_all add: demo_defs atExpiry_def)
  show ?thesis
    using status_200_decides_decoding [OF a, where
        resp = "\<lparr>StatusCode = 503, Status = ''503 Service Unavailable'', decoded = zeroResp,
          decodeErr = None\<rparr>" and m = MethodGet and u = WxWorkAppGetGroupAPI and p = None
        and b = None and m' = MethodPost and u' = WxWorkAppUploadImageAPI and p' = None
        and fb = "[1, 2]" and fn = "''a.png''"]
      status_200_decides_decoding [OF b, where
        resp = "\<lparr>StatusCode = 200, Status = ''200 OK'', decoded = zeroResp,
          decodeErr = None\<rparr>" and m = MethodGet and u = WxWorkAppGetGroupAPI and p = None
        and b = None]
    by (simp add: demo_defs unavailable_def atExpiry_def)
qed

text \<open>
  C4 as stated fails on a 2xx status other than 200: a client with a usable token gets
  the answer 201 whose body decodes to an envelope. \<open>fireRequest\<close> reports the request
  error for \<^verbatim>\<open>201 Created\<close> and leaves the struct at its zero value: the body is not
  decoded.
\<close>

theorem status_201_counterexample:
  "doResult (exchanges created 0) =
     Inr \<lparr>StatusCode = 201, Status = ''201 Created'',
          decoded = errDoc 42001 ''access_token expired'', decodeErr = None\<rparr> \<and>
   fst (fireRequest MethodPost WxWorkAppCreateGroupAPI None None (holding ''T'' 100) created) =
     Some (WxworkRequestError ''201 Created'') \<and>
   fst (snd (fireRequest MethodPost WxWorkAppCreateGroupAPI None None (holding ''T'' 100)
               created)) = zeroResp \<and>
   zeroResp \<noteq> errDoc 42001 ''access_token expired''"
  by (simp add: demo_defs created_def zeroResp_def fireRequest_def acquireToken_def
        tokenMissingOrExpired_def IsAccessTokenExpired_def timeNow_def nextExchange_def
        StatusOK_def Let_def)

text \<open>
  C7. A response whose status is outside 200..299 is a transport error and the handling
  of it writes neither the token nor the expiry. At the token endpoint
  \<open>refreshAccessToken\<close> returns the request error and the client it was given, and an
  operation that was refreshing an empty token returns that error wrapped, with the
  client unchanged. At the endpoint of any of the seven operations the operation returns
  the request error, and token and expiry are those the client had when the request was
  issued, that is after the token step; when the token was usable on entry the client
  is the one the operation was called with.
\<close>

theorem non_2xx_status_frame:
  assumes "StatusCode resp < 200 \<or> 299 < StatusCode resp"
  shows "(newRequestErr (exchanges w (attempts w)) = None \<and>
          doResult (exchanges w (attempts w)) = Inr resp \<longrightarrow>
            fst (refreshAccessToken r w) = Some (WxworkRequestError (Status resp)) \<and>
            fst (snd (refreshAccessToken r w)) = r \<and>
            (accessToken r = [] \<longrightarrow>
               fst (exec op r w) =
                 Some (RefreshAccessTokenError (WxworkRequestError (Status resp))) \<and>
               fst (snd (exec op r w)) = r)) \<and>
         (acquireToken r w = (None, r1, w1) \<and>
          requestBuilt (isUpload op) (exchanges w1 (attempts w1)) \<and>
          doResult (exchanges w1 (attempts w1)) = Inr resp \<longrightarrow>
            fst (exec op r w) =
              Some (if isUpload op then WxworkAppRequestError (Status resp)
                    else WxworkRequestError (Status resp)) \<and>
            accessToken (fst (snd (exec op r w))) = accessToken r1 \<and>
            expiredAt (fst (snd (exec op r w))) = expiredAt r1) \<and>
         (\<not> fst (tokenMissingOrExpired r w) \<and>
          requestBuilt (isUpload op) (exchanges w (attempts w)) \<and>
          doResult (exchanges w (attempts w)) = Inr resp \<longrightarrow>
            fst (exec op r w) =
              Some (if isUpload op then WxworkAppRequestError (Status resp)
                    else WxworkRequestError (Status resp)) \<and>
            fst (snd (exec op r w)) = r)"
proof -
  have s: "StatusCode resp \<noteq> 200"
    using assms by auto
  have A: "fst (refreshAccessToken r w) = Some (WxworkRequestError (Status resp)) \<and>
           fst (snd (refreshAccessToken r w)) = r \<and>
           (accessToken r = [] \<longrightarrow>
              fst (exec op r w) =
                Some (RefreshAccessTokenError (WxworkRequestError (Status resp))) \<and>
              fst (snd (exec op r w)) = r)"
    if "newRequestErr (exchanges w (attempts w)) = None"
      and "doResult (exchanges w (attempts w)) = Inr resp"
    using that s
    by (simp add: refresh_status acquire_empty exec_eq wrapRefresh_def)
  have B: "fst (exec op r w) =
             Some (if isUpload op then WxworkAppRequestError (Status resp)
                   else WxworkRequestError (Status resp)) \<and>
           fst (snd (exec op r w)) = r1"
    if "acquireToken r w = (None, r1, w1)"
      and "requestBuilt (isUpload op) (exchanges w1 (attempts w1))"
      and "doResult (exchanges w1 (attempts w1)) = Inr resp"
    for r1 w1
    using that s
    by (simp add: exec_eq finish_reply)
  have C: "fst (exec op r w) =
             Some (if isUpload op then WxworkAppRequestError (Status resp)
                   else WxworkRequestError (Status resp)) \<and>
           fst (snd (exec op r w)) = r"
    if n: "\<not> fst (tokenMissingOrExpired r w)"
      and "requestBuilt (isUpload op) (exchanges w (attempts w))"
      and "doResult (exchanges w (attempts w)) = Inr resp"
  proof -
    have "accessToken r \<noteq> []" "clock w (ticks w) \<le> expiredAt r"
      using n by (auto simp add: tokenMissingOrExpired_def IsAccessTokenExpired_def timeNow_def
            split: if_splits)
    then have "acquireToken r w = (None, r, w\<lparr>ticks := Suc (ticks w)\<rparr>)"
      by (rule acquire_valid)
    then show ?thesis
      using B [of r "w\<lparr>ticks := Suc (ticks w)\<rparr>"] that by simp
  qed
  show ?thesis
    using A B [of r1 w1] C by simp
qed

theorem non_2xx_status_frame_witness:
  "fst (refreshAccessToken demoApp unavailable) =
     Some (WxworkRequestError ''503 Service Unavailable'') \<and>
   fst (snd (refreshAccessToken demoApp unavailable)) = demoApp \<and>
   fst (exec (OpUploadImage [1, 2] ''a.png'') demoApp unavailable) =
     Some (RefreshAccessTokenError (WxworkRequestError ''503 Service Unavailable'')) \<and>
   fst (snd (exec (OpUploadImage [1, 2] ''a.png'') demoApp unavailable)) = demoApp \<and>
   fst (exec (OpUploadImage [1, 2] ''a.png'') (holding ''T'' 100) unavailable) =
     Some (WxworkAppRequestError ''503 Service Unavailable'') \<and>
   fst (snd (exec (OpUploadImage [1, 2] ''a.png'') (holding ''T'' 100) unavailable)) =
     holding ''T'' 100"
proof -
  let ?resp = "\<lparr>StatusCode = 503, Status = ''503 Service Unavailable'', decoded = zeroResp,
                decodeErr = None\<rparr>"
  have h: "StatusCode ?resp < 200 \<or> 299 < StatusCode ?resp"
    by simp
  show ?thesis
    using non_2xx_status_frame [OF h, of unavailable demoApp "OpUploadImage [1, 2] ''a.png''"]
      non_2xx_status_frame [OF h, of unavailable "holding ''T'' 100"
        "OpUploadImage [1, 2] ''a.png''"]
    by (simp add: demo_defs unavailable_def requestBuilt_def tokenMissingOrExpired_def
          IsAccessTokenExpired_def timeNow_def prod_eq_iff)
qed

subsection \<open>The token-expired code\<close>

lemma refresh_tokenCalls:
  "tokenCalls (calls (snd (snd (refreshAccessToken r w)))) =
     tokenCalls (calls w) + (if newRequestErr (exchanges w (attempts w)) = None then 1 else 0)"
  by (simp add: refreshAccessToken_def nextExchange_def Let_def clientDo_def timeNow_def
        tokenCalls_def tokenRequest_def split: option.splits sum.splits)

lemma wrapRefresh_world: "snd (snd (wrapRefresh t)) = snd (snd t)"
  by (simp add: wrapRefresh_def split: prod.splits option.splits)

lemma exec_tokenCalls:
  "tokenCalls (calls (snd (snd (exec op r w)))) =
     tokenCalls (calls (snd (snd (acquireToken r w))))"
  by (simp add: exec_eq finish_tokenCalls split: prod.splits option.splits)

lemma exec_empty_tokenCalls:
  "accessToken r = [] \<Longrightarrow>
   tokenCalls (calls (snd (snd (exec op r w)))) =
     tokenCalls (calls w) + (if newRequestErr (exchanges w (attempts w)) = None then 1 else 0)"
  by (simp add: exec_tokenCalls acquire_empty wrapRefresh_world refresh_tokenCalls)

text \<open>
  C2 (as the code has it). For each of the seven operations (message send, group create,
  update and get, group send, media upload, image upload): if the token step succeeds,
  the request is sent, the response has status 200, its body decodes, and the code of
  the envelope is 42001, then the operation returns the API error with that code and the
  message of the envelope, and the client it returns has the token set to the empty
  string. The world after the call holds the one request of the operation and no other:
  nothing is sent again within the call. On the client returned, the token step of any
  next operation calls \<open>refreshAccessToken\<close>, and that operation sends one request to the
  token endpoint (unless the request to it cannot be constructed).
\<close>

theorem expired_code_on_200_invalidates:
  assumes "acquireToken r w = (None, r1, w1)"
    and "requestBuilt (isUpload op) (exchanges w1 (attempts w1))"
    and "doResult (exchanges w1 (attempts w1)) = Inr resp"
    and "StatusCode resp = 200"
    and "decodeErr resp = None"
    and "ErrCode (decoded resp) = WxWorkCodeAccessTokenExpired"
  shows "exec op r w =
           (Some (CallApiError (apiName op) 42001 (ErrMessage (decoded resp))),
            r1\<lparr>accessToken := []\<rparr>,
            clientDo (requestOf op r1) (w1\<lparr>attempts := Suc (attempts w1)\<rparr>)) \<and>
         accessToken (fst (snd (exec op r w))) = [] \<and>
         (\<forall>op' w'. acquireToken (fst (snd (exec op r w))) w' =
                     wrapRefresh (refreshAccessToken (fst (snd (exec op r w))) w') \<and>
                   tokenCalls (calls (snd (snd (exec op' (fst (snd (exec op r w))) w')))) =
                     tokenCalls (calls w') +
                     (if newRequestErr (exchanges w' (attempts w')) = None then 1 else 0))"
proof -
  have E: "exec op r w =
           (Some (CallApiError (apiName op) 42001 (ErrMessage (decoded resp))),
            r1\<lparr>accessToken := []\<rparr>,
            clientDo (requestOf op r1) (w1\<lparr>attempts := Suc (attempts w1)\<rparr>))"
    using assms
    by (simp add: exec_eq finish_reply WxWorkCodeAccessTokenExpired_def)
  show ?thesis
    by (simp add: E acquire_empty exec_empty_tokenCalls)
qed

theorem expired_code_on_200_invalidates_witness:
  "ErrCode (errDoc 42001 ''access_token expired'') = WxWorkCodeAccessTokenExpired \<and>
   fst (exec (OpSendGroupMessage None) (holding ''T'' 100) expiredReply) =
     Some (CallApiError ''group message'' 42001 ''access_token expired'') \<and>
   fst (snd (exec (OpSendGroupMessage None) (holding ''T'' 100) expiredReply)) = holding [] 100 \<and>
   length (calls (snd (snd (exec (OpSendGroupMessage None) (holding ''T'' 100) expiredReply)))) = 1 \<and>
   tokenCalls (calls (snd (snd (exec (OpGetGroupChat ''g'')
       (fst (snd (exec (OpSendGroupMessage None) (holding ''T'' 100) expiredReply)))
       twoHours)))) = 1"
proof -
  let ?resp = "\<lparr>StatusCode = 200, Status = ''200 OK'',
                decoded = errDoc 42001 ''access_token expired'', decodeErr = None\<rparr>"
  have a: "acquireToken (holding ''T'' 100) expiredReply =
      (None, holding ''T'' 100, expiredReply\<lparr>ticks := Suc (ticks expiredReply)\<rparr>)"
    by (rule acquire_valid) (simp_all add: demo_defs expiredReply_def)
  have T: "exec (OpSendGroupMessage None) (holding ''T'' 100) expiredReply =
           (Some (CallApiError (apiName (OpSendGroupMessage None)) 42001
                    (ErrMessage (decoded ?resp))),
            (holding ''T'' 100)\<lparr>accessToken := []\<rparr>,
            clientDo (requestOf (OpSendGroupMessage None) (holding ''T'' 100))
              (expiredReply\<lparr>ticks := Suc (ticks expiredReply),
                 attempts := Suc (attempts (expiredReply\<lparr>ticks := Suc (ticks expiredReply)\<rparr>))\<rparr>)) \<and>
         accessToken (fst (snd (exec (OpSendGroupMessage None) (holding ''T'' 100) expiredReply))) = [] \<and>
         (\<forall>op' w'. acquireToken (fst (snd (exec (OpSendGroupMessage None) (holding ''T'' 100) expiredReply))) w' =
                     wrapRefresh (refreshAccessToken (fst (snd (exec (OpSendGroupMessage None) (holding ''T'' 100) expiredReply))) w') \<and>
                   tokenCalls (calls (snd (snd (exec op' (fst (snd (exec (OpSendGroupMessage None) (holding ''T'' 100) expiredReply))) w')))) =
                     tokenCalls (calls w') +
                     (if newRequestErr (exchanges w' (attempts w')) = None then 1 else 0))"
    by (rule expired_code_on_200_invalidates [OF a, where resp = ?resp])
       (simp_all add: demo_defs expiredReply_def requestBuilt_def zeroResp_def
          WxWorkCodeAccessTokenExpired_def)
  then have N: "tokenCalls (calls (snd (snd (exec (OpGetGroupChat ''g'')
       (fst (snd (exec (OpSendGroupMessage None) (holding ''T'' 100) expiredReply))) twoHours)))) =
         tokenCalls (calls twoHours) +
           (if newRequestErr (exchanges twoHours (attempts twoHours)) = None then 1 else 0)"
    by blast
  from T have E: "exec (OpSendGroupMessage None) (holding ''T'' 100) expiredReply =
           (Some (CallApiError (apiName (OpSendGroupMessage None)) 42001
                    (ErrMessage (decoded ?resp))),
            (holding ''T'' 100)\<lparr>accessToken := []\<rparr>,
            clientDo (requestOf (OpSendGroupMessage None) (holding ''T'' 100))
              (expiredReply\<lparr>ticks := Suc (ticks expiredReply),
                 attempts := Suc (attempts (expiredReply\<lparr>ticks := Suc (ticks expiredReply)\<rparr>))\<rparr>))"
    by blast
  have c: "length (calls (snd (snd (exec (OpSendGroupMessage None) (holding ''T'' 100) expiredReply)))) = 1"
    unfolding E by (simp add: clientDo_def expiredReply_def worldOf_def)
  show ?thesis
    using N c unfolding E
    by (simp add: demo_defs twoHours_def tokenCalls_def zeroResp_def
          WxWorkCodeAccessTokenExpired_def)
qed

text \<open>
  C2 as stated fails on a 2xx status other than 200: the answer is 201 and its body is an
  envelope with code 42001. \<open>sendMessage\<close> returns the request error for
  \<^verbatim>\<open>201 Created\<close> and the cached token is still \<open>T\<close>.
\<close>

theorem expired_code_on_201_counterexample:
  "doResult (exchanges created 0) =
     Inr \<lparr>StatusCode = 201, Status = ''201 Created'',
          decoded = errDoc 42001 ''access_token expired'', decodeErr = None\<rparr> \<and>
   fst (snd (sendMessage None (holding ''T'' 100) created)) =
     Some (WxworkRequestError ''201 Created'') \<and>
   accessToken (fst (snd (snd (sendMessage None (holding ''T'' 100) created)))) = ''T''"
  by (simp add: demo_defs created_def zeroResp_def sendMessage_def fireRequest_def
        acquireToken_def tokenMissingOrExpired_def IsAccessTokenExpired_def timeNow_def
        nextExchange_def StatusOK_def Let_def)

text \<open>
  C10. When an operation meets the token-expired code (status 200, body decoded, code
  42001), the client it returns is the client of the request with the token set to the
  empty string and nothing else changed: the expiry is the one recorded before. The
  token step tests the empty string first: on any client whose token is empty the
  condition holds without a reading of the clock, the token step calls
  \<open>refreshAccessToken\<close>, and an operation sends a request to the token endpoint (if that
  request can be constructed), wherever the recorded expiry lies.
\<close>

theorem invalidation_keeps_expiry:
  assumes "acquireToken r w = (None, r1, w1)"
    and "requestBuilt (isUpload op) (exchanges w1 (attempts w1))"
    and "doResult (exchanges w1 (attempts w1)) = Inr resp"
    and "StatusCode resp = 200"
    and "decodeErr resp = None"
    and "ErrCode (decoded resp) = WxWorkCodeAccessTokenExpired"
  shows "fst (snd (exec op r w)) = r1\<lparr>accessToken := []\<rparr> \<and>
         accessToken (fst (snd (exec op r w))) = [] \<and>
         expiredAt (fst (snd (exec op r w))) = expiredAt r1 \<and>
         (\<forall>r' w'. accessToken r' = [] \<longrightarrow>
            tokenMissingOrExpired r' w' = (True, w') \<and>
            acquireToken r' w' = wrapRefresh (refreshAccessToken r' w') \<and>
            tokenCalls (calls (snd (snd (exec op r' w')))) =
              tokenCalls (calls w') +
              (if newRequestErr (exchanges w' (attempts w')) = None then 1 else 0))"
proof -
  have E: "fst (snd (exec op r w)) = r1\<lparr>accessToken := []\<rparr>"
    using assms
    by (simp add: exec_eq finish_reply WxWorkCodeAccessTokenExpired_def)
  show ?thesis
    by (simp add: E acquire_empty exec_empty_tokenCalls tokenMissingOrExpired_def)
qed

theorem invalidation_keeps_expiry_witness:
  "fst (snd (exec (OpUploadImage [7] ''a.png'') (holding ''T'' 100) expiredReply)) = holding [] 100 \<and>
   clock expiredReply (ticks expiredReply) < expiredAt (holding [] 100) \<and>
   tokenMissingOrExpired (holding [] 100) expiredReply = (True, expiredReply) \<and>
   fst (acquireToken (holding [] 100) expiredReply) =
     Some (RefreshAccessTokenError (CallApiError [] 42001 ''access_token expired'')) \<and>
   tokenCalls (calls (snd (snd (exec (OpUploadImage [7] ''a.png'') (holding [] 100) expiredReply)))) = 1"
proof -
  let ?resp = "\<lparr>StatusCode = 200, Status = ''200 OK'',
                decoded = errDoc 42001 ''access_token expired'', decodeErr = None\<rparr>"
  let ?op = "OpUploadImage [7] ''a.png''"
  have a: "acquireToken (holding ''T'' 100) expiredReply =
      (None, holding ''T'' 100, expiredReply\<lparr>ticks := Suc (ticks expiredReply)\<rparr>)"
    by (rule acquire_valid) (simp_all add: demo_defs expiredReply_def)
  have T: "fst (snd (exec ?op (holding ''T'' 100) expiredReply)) =
             (holding ''T'' 100)\<lparr>accessToken := []\<rparr> \<and>
         accessToken (fst (snd (exec ?op (holding ''T'' 100) expiredReply))) = [] \<and>
         expiredAt (fst (snd (exec ?op (holding ''T'' 100) expiredReply))) =
           expiredAt (holding ''T'' 100) \<and>
         (\<forall>r' w'. accessToken r' = [] \<longrightarrow>
            tokenMissingOrExpired r' w' = (True, w') \<and>
            acquireToken r' w' = wrapRefresh (refreshAccessToken r' w') \<and>
            tokenCalls (calls (snd (snd (exec ?op r' w')))) =
              tokenCalls (calls w') +
              (if newRequestErr (exchanges w' (attempts w')) = None then 1 else 0))"
    by (rule invalidation_keeps_expiry [OF a, where resp = ?resp])
       (simp_all add: demo_defs expiredReply_def requestBuilt_def zeroResp_def
          WxWorkCodeAccessTokenExpired_def)
  have e: "accessToken (holding [] 100) = []"
    by (simp add: demo_defs)
  from T e have N: "tokenMissingOrExpired (holding [] 100) expiredReply = (True, expiredReply) \<and>
      acquireToken (holding [] 100) expiredReply =
        wrapRefresh (refreshAccessToken (holding [] 100) expiredReply) \<and>
      tokenCalls (calls (snd (snd (exec ?op (holding [] 100) expiredReply)))) =
        tokenCalls (calls expiredReply) +
        (if newRequestErr (exchanges expiredReply (attempts expiredReply)) = None then 1 else 0)"
    by blast
  from T have E: "fst (snd (exec ?op (holding ''T'' 100) expiredReply)) =
             (holding ''T'' 100)\<lparr>accessToken := []\<rparr>"
    by blast
  have R: "refreshAccessToken (holding [] 100) expiredReply =
      (Some (CallApiError [] 42001 ''access_token expired''), holding [] 100,
       clientDo (tokenRequest (holding [] 100)) (expiredReply\<lparr>attempts := Suc (attempts expiredReply)\<rparr>))"
    using refresh_reply [of expiredReply ?resp "holding [] 100"]
    by (simp add: demo_defs expiredReply_def zeroResp_def)
  have c: "tokenCalls (calls expiredReply) = 0" "clock expiredReply (ticks expiredReply) = 50"
    "newRequestErr (exchanges expiredReply (attempts expiredReply)) = None"
    by (simp_all add: demo_defs expiredReply_def tokenCalls_def)
  have h: "(holding ''T'' 100)\<lparr>accessToken := []\<rparr> = holding [] 100" "expiredAt (holding [] 100) = 100"
    by (simp_all add: demo_defs)
  show ?thesis
    using N E by (simp add: R c h wrapRefresh_def)
qed

subsection \<open>Operations on a valid token\<close>

lemma exec_valid_tokenCalls:
  assumes "\<not> fst (tokenMissingOrExpired r w)"
  shows "tokenCalls (calls (snd (snd (exec op r w)))) = tokenCalls (calls w)"
proof -
  have "accessToken r \<noteq> []" "clock w (ticks w) \<le> expiredAt r"
    using assms
    by (auto simp add: tokenMissingOrExpired_def IsAccessTokenExpired_def timeNow_def
          split: if_splits)
  then have "acquireToken r w = (None, r, w\<lparr>ticks := Suc (ticks w)\<rparr>)"
    by (rule acquire_valid)
  then show ?thesis
    by (simp add: exec_tokenCalls)
qed

lemma run_valid_tokenCalls:
  "issuedWhileValid ops r w \<Longrightarrow> tokenCalls (calls (snd (run ops r w))) = tokenCalls (calls w)"
proof (induction ops arbitrary: r w)
  case Nil
  then show ?case by simp
next
  case (Cons op ops)
  obtain e r' w' where x: "exec op r w = (e, r', w')"
    by (metis prod_cases3)
  have "tokenCalls (calls w') = tokenCalls (calls w)"
    using Cons.prems exec_valid_tokenCalls [of r w op] x by simp
  moreover have "issuedWhileValid ops r' w'"
    using Cons.prems x by simp
  ultimately show ?case
    using Cons.IH [of r' w'] x by simp
qed

lemma acquire_expired:
  "accessToken r \<noteq> [] \<Longrightarrow> expiredAt r < clock w (ticks w) \<Longrightarrow>
   expiredAt r < clock w (Suc (ticks w)) \<Longrightarrow>
   acquireToken r w = wrapRefresh (refreshAccessToken r (w\<lparr>ticks := Suc (Suc (ticks w))\<rparr>))"
  by (simp add: acquireToken_def tokenMissingOrExpired_def IsAccessTokenExpired_def timeNow_def
        wrapRefresh_def split: prod.splits option.splits)

lemma exec_expired_tokenCalls:
  assumes "accessToken r \<noteq> []" and "expiredAt r < clock w (ticks w)"
    and "expiredAt r < clock w (Suc (ticks w))"
  shows "tokenCalls (calls (snd (snd (exec op r w)))) =
     tokenCalls (calls w) + (if newRequestErr (exchanges w (attempts w)) = None then 1 else 0)"
  using assms
  by (simp add: exec_tokenCalls acquire_expired wrapRefresh_world refresh_tokenCalls)

text \<open>
  C8. A sequence of operations, each issued while the cached token is not empty and not
  expired, sends no request to the token endpoint: the number of such requests after
  the sequence is the number before it. An operation fetches a token when it finds the
  token empty (after construction or invalidation) or expired (at both readings of the
  clock of the token step), and then it sends exactly one request to the token endpoint,
  provided that request can be constructed.
\<close>

theorem valid_token_no_fetch:
  "(issuedWhileValid ops r w \<longrightarrow>
      tokenCalls (calls (snd (run ops r w))) = tokenCalls (calls w)) \<and>
   ((accessToken r = [] \<or>
     expiredAt r < clock w (ticks w) \<and> expiredAt r < clock w (Suc (ticks w))) \<and>
    newRequestErr (exchanges w (attempts w)) = None \<longrightarrow>
      tokenCalls (calls (snd (snd (exec op r w)))) = Suc (tokenCalls (calls w)))"
proof -
  have "tokenCalls (calls (snd (snd (exec op r w)))) = Suc (tokenCalls (calls w))"
    if "accessToken r = [] \<or>
        expiredAt r < clock w (ticks w) \<and> expiredAt r < clock w (Suc (ticks w))"
      and "newRequestErr (exchanges w (attempts w)) = None"
    using that exec_empty_tokenCalls [of r op w] exec_expired_tokenCalls [of r w op]
    by (cases "accessToken r = []") auto
  then show ?thesis
    using run_valid_tokenCalls [of ops r w] by blast
qed

text \<open>
  The scenario: the first send on a new client fetches the token and posts the message;
  two further operations within the ten seconds fetch nothing.
\<close>

lemma first_send:
  "run [OpSendMessage None] demoApp tenSeconds =
     (holding ''abc'' 10000001000,
      tenSeconds\<lparr>ticks := 1, attempts := 2,
        calls := [tokenRequest demoApp, requestOf (OpSendMessage None) (holding ''abc'' 10000001000)]\<rparr>)"
  by (simp add: demo_defs tenSeconds_def zeroResp_def sendMessage_def fireRequest_def
        acquireToken_def tokenMissingOrExpired_def refreshAccessToken_def nextExchange_def
        clientDo_def timeNow_def StatusOK_def WxWorkAppStatusOK_def Let_def Second_def
        tokenRequest_def jsonRequest_def queryOf_def)


theorem valid_token_no_fetch_witness:
  "accessToken demoApp = [] \<and>
   tokenCalls (calls (snd (snd (exec (OpSendMessage None) demoApp tenSeconds)))) = 1 \<and>
   issuedWhileValid [OpSendMessage None, OpGetGroupChat ''g'']
     (fst (run [OpSendMessage None] demoApp tenSeconds))
     (snd (run [OpSendMessage None] demoApp tenSeconds)) \<and>
   tokenCalls (calls (snd (run [OpSendMessage None, OpGetGroupChat ''g'']
     (fst (run [OpSendMessage None] demoApp tenSeconds))
     (snd (run [OpSendMessage None] demoApp tenSeconds))))) = 1"
proof -
  let ?r1 = "holding ''abc'' 10000001000"
  let ?w1 = "tenSeconds\<lparr>ticks := 1, attempts := 2,
        calls := [tokenRequest demoApp, requestOf (OpSendMessage None) (holding ''abc'' 10000001000)]\<rparr>"
  let ?ops = "[OpSendMessage None, OpGetGroupChat ''g'']"
  have v: "issuedWhileValid ?ops ?r1 ?w1"
    by (simp add: demo_defs tenSeconds_def zeroResp_def sendMessage_def GetGroupChat_def
        fireRequest_def acquireToken_def tokenMissingOrExpired_def IsAccessTokenExpired_def
        nextExchange_def clientDo_def timeNow_def StatusOK_def WxWorkAppStatusOK_def Let_def)
  have t: "tokenCalls (calls ?w1) = 1"
    by (simp add: tokenCalls_def tokenRequest_def jsonRequest_def url_defs)
  have n: "tokenCalls (calls (snd (run ?ops ?r1 ?w1))) = tokenCalls (calls ?w1)"
    using valid_token_no_fetch [of ?ops ?r1 ?w1] v by blast
  have e: "accessToken demoApp = []" "tokenCalls (calls tenSeconds) = 0"
    "newRequestErr (exchanges tenSeconds (attempts tenSeconds)) = None"
    by (simp_all add: demo_defs tenSeconds_def tokenCalls_def)
  have f: "tokenCalls (calls (snd (snd (exec (OpSendMessage None) demoApp tenSeconds)))) =
      Suc (tokenCalls (calls tenSeconds))"
    using valid_token_no_fetch [of "[]" demoApp tenSeconds "OpSendMessage None"] e by blast
  show ?thesis
    unfolding first_send using v n t e f by simp
qed

subsection \<open>Which errors are returned\<close>

lemma refresh_stage:
  "fst (refreshAccessToken r w) = stageError [] False (exchanges w (attempts w))"
  by (simp add: refreshAccessToken_def stageError_def transportError_def nextExchange_def
        StatusOK_def WxWorkAppStatusOK_def Let_def timeNow_def
        split: option.splits sum.splits prod.splits)

lemma finish_stage:
  "fst (finish op r1 w1) = stageError (apiName op) (isUpload op) (exchanges w1 (attempts w1))"
  by (auto simp add: finish_def deliver_def stageError_def transportError_def answer_def
        requestBuilt_def WxWorkAppStatusOK_def Let_def
        split: option.splits sum.splits formFileFailure.splits if_splits)

lemma acquire_stage:
  "fst (acquireToken r w) =
     (if fst (tokenMissingOrExpired r w) \<and>
         fst (tokenMissingOrExpired r (snd (tokenMissingOrExpired r w)))
      then map_option RefreshAccessTokenError
             (fst (refreshAccessToken r
                (snd (tokenMissingOrExpired r (snd (tokenMissingOrExpired r w))))))
      else None)"
  by (simp add: acquireToken_def split: prod.splits option.splits bool.splits)

lemma fire_body_independent:
  "fst (fireRequest m u p b r w) = fst (fireRequest m u p None r w)"
  by (simp add: fireRequest_eq deliver_def Let_def split: prod.splits option.splits)

lemma upload_media_created_at:
  "fst (snd (UploadMedia fb fn ft r w)) =
     (case fst (snd (snd (UploadMedia fb fn ft r w))) of
        Some e \<Rightarrow> 0
      | None \<Rightarrow>
         fst (ParseInt (CreatedAt (fst (snd
           (uploadFile MethodPost WxWorkAppUploadMediaAPI (Some [(''type'', ft)]) fb fn r w))))))"
  by (simp add: UploadMedia_def split: prod.splits option.splits)

text \<open>
  C9 (as the code has it). The error \<open>refreshAccessToken\<close> returns is that of the first
  failing stage of its exchange (request construction, network call, status, parsing,
  rejection by the API), under the prefix of that stage. The token step returns no error
  when it does not refresh and otherwise the error of the refresh under the refresh
  prefix. Each of the seven operations returns the error of the token step if there is
  one and otherwise the error of the first failing stage of its own exchange (for the
  uploads the multipart writer comes first). Two failures are not among the stages: the
  error of \<open>fireRequest\<close> does not depend on the request body, so a failure of
  \<open>json.Marshal\<close> is not returned; and \<open>UploadMedia\<close> returns as \<open>createdAt\<close> the value
  of \<open>strconv.ParseInt\<close> on the \<open>created_at\<close> member whenever it returns no error, so a
  failure of \<open>strconv.ParseInt\<close> is not returned.
\<close>

theorem errors_returned_by_stage:
  "fst (refreshAccessToken r w) = stageError [] False (exchanges w (attempts w)) \<and>
   fst (acquireToken r w) =
     (if fst (tokenMissingOrExpired r w) \<and>
         fst (tokenMissingOrExpired r (snd (tokenMissingOrExpired r w)))
      then map_option RefreshAccessTokenError
             (fst (refreshAccessToken r
                (snd (tokenMissingOrExpired r (snd (tokenMissingOrExpired r w))))))
      else None) \<and>
   fst (exec op r w) =
     (case acquireToken r w of
        (Some e, r1, w1) \<Rightarrow> Some e
      | (None, r1, w1) \<Rightarrow> stageError (apiName op) (isUpload op) (exchanges w1 (attempts w1))) \<and>
   fst (fireRequest m u p b r w) = fst (fireRequest m u p None r w) \<and>
   fst (snd (UploadMedia fb fn ft r w)) =
     (case fst (snd (snd (UploadMedia fb fn ft r w))) of
        Some e \<Rightarrow> 0
      | None \<Rightarrow>
         fst (ParseInt (CreatedAt (fst (snd
           (uploadFile MethodPost WxWorkAppUploadMediaAPI (Some [(''type'', ft)]) fb fn r w))))))"
proof -
  have "fst (exec op r w) =
     (case acquireToken r w of
        (Some e, r1, w1) \<Rightarrow> Some e
      | (None, r1, w1) \<Rightarrow> stageError (apiName op) (isUpload op) (exchanges w1 (attempts w1)))"
    by (simp add: exec_eq finish_stage split: prod.splits option.splits)
  then show ?thesis
    using refresh_stage [of r w] acquire_stage [of r w] fire_body_independent [of m u p b r w]
      upload_media_created_at [of fb fn ft r w]
    by blast
qed

text \<open>
  C9 as stated fails on the two failures it names. \<open>json.Marshal\<close> rejects the request
  body, yet \<open>fireRequest\<close> returns no error and has sent a request whose body has no
  bytes. The media endpoint answers with \<open>created_at = abc\<close>, which \<open>strconv.ParseInt\<close>
  rejects, yet \<open>UploadMedia\<close> returns the media id, 0 as \<open>createdAt\<close> and no error.
\<close>

theorem swallowed_errors_counterexample:
  "snd (jsonMarshal (JUnsupported ''json: unsupported type: chan int'')) =
     Some ''json: unsupported type: chan int'' \<and>
   fst (fireRequest MethodPost WxWorkAppMessageAPI None
          (Some (JUnsupported ''json: unsupported type: chan int'')) (holding ''T'' 100) atExpiry) =
     None \<and>
   map body (calls (snd (snd (snd (fireRequest MethodPost WxWorkAppMessageAPI None
          (Some (JUnsupported ''json: unsupported type: chan int'')) (holding ''T'' 100)
          atExpiry))))) = [JSONBody None] \<and>
   snd (ParseInt ''abc'') = Some ''invalid syntax'' \<and>
   CreatedAt (decoded (projr (doResult (exchanges badCreatedAt 0)))) = ''abc'' \<and>
   fst (UploadMedia [7] ''a.png'' ''image'' (holding ''T'' 100) badCreatedAt) = ''m1'' \<and>
   fst (snd (UploadMedia [7] ''a.png'' ''image'' (holding ''T'' 100) badCreatedAt)) = 0 \<and>
   fst (snd (snd (UploadMedia [7] ''a.png'' ''image'' (holding ''T'' 100) badCreatedAt))) = None"
  by (simp add: demo_defs atExpiry_def badCreatedAt_def zeroResp_def jsonMarshal_def
        fireRequest_def UploadMedia_def uploadFile_def acquireToken_def
        tokenMissingOrExpired_def IsAccessTokenExpired_def timeNow_def nextExchange_def
        clientDo_def StatusOK_def WxWorkAppStatusOK_def Let_def ParseInt_def isDigit_def)

end
